theory Spec2Isabelle
  imports Complex_Main
begin

section \<open>JavaScript strings and the regular expressions the router uses\<close>

text \<open>
  A JavaScript string is a sequence of UTF-16 code units. The model takes the code units
  below 256 (ASCII and the Latin-1 supplement), one \<^typ>\<open>char\<close> each, so
  \<open>length\<close> is the string's \<open>.length\<close>. JavaScript numbers are modelled as exact
  numbers: \<^typ>\<open>int\<close> where the program only ever holds integers (epoch milliseconds,
  token counts, lengths) and \<^typ>\<open>real\<close> for scores, weights and header values.
\<close>

definition code_unit :: "char \<Rightarrow> nat" where
  "code_unit c = of_char c"

definition toLowerCase_char :: "char \<Rightarrow> char" where
  \<comment> \<open>\<open>A\<close>-\<open>Z\<close> and the Latin-1 capitals (all of 0xC0-0xDE but the multiplication sign).\<close>
  "toLowerCase_char c =
     (let n = code_unit c
      in if (65 \<le> n \<and> n \<le> 90) \<or> (192 \<le> n \<and> n \<le> 222 \<and> n \<noteq> 215)
         then char_of (n + 32) else c)"

definition toLowerCase :: "string \<Rightarrow> string" where
  "toLowerCase s = map toLowerCase_char s"

definition canonicalize :: "bool \<Rightarrow> char \<Rightarrow> char" where
  \<comment> \<open>The comparison key of a character under the \<open>/i\<close> flag (upper-casing); the
      identity without the flag. The two Latin-1 letters whose capitals lie beyond
      Latin-1 (0xB5, 0xFF) keep a key of their own.\<close>
  "canonicalize ignoreCase c =
     (let n = code_unit c
      in if ignoreCase \<and> ((97 \<le> n \<and> n \<le> 122) \<or> (224 \<le> n \<and> n \<le> 254 \<and> n \<noteq> 247))
         then char_of (n - 32) else c)"

definition is_white_space :: "char \<Rightarrow> bool" where
  \<comment> \<open>What \<open>String.prototype.trim\<close> strips: TAB, LF, VT, FF, CR, SP, NBSP.\<close>
  "is_white_space c = (code_unit c \<in> {9, 10, 11, 12, 13, 32, 160})"

definition trim :: "string \<Rightarrow> string" where
  "trim s = rev (dropWhile is_white_space (rev (dropWhile is_white_space s)))"

definition is_word_char :: "char \<Rightarrow> bool" where
  \<comment> \<open>\<open>\w\<close>: ASCII letters, digits and the underscore.\<close>
  "is_word_char c =
     (let n = code_unit c
      in (48 \<le> n \<and> n \<le> 57) \<or> (65 \<le> n \<and> n \<le> 90) \<or> n = 95 \<or> (97 \<le> n \<and> n \<le> 122))"

definition is_digit :: "char \<Rightarrow> bool" where
  "is_digit c = (48 \<le> code_unit c \<and> code_unit c \<le> 57)"

definition is_line_terminator :: "char \<Rightarrow> bool" where
  "is_line_terminator c = (code_unit c = 10 \<or> code_unit c = 13)"

fun str_includes :: "string \<Rightarrow> string \<Rightarrow> bool" where
  \<comment> \<open>\<open>s.includes(p)\<close>\<close>
  "str_includes [] p = (p = [])"
| "str_includes (c # cs) p = (take (length p) (c # cs) = p \<or> str_includes cs p)"

fun join :: "string \<Rightarrow> string list \<Rightarrow> string" where
  \<comment> \<open>\<open>parts.join(sep)\<close>\<close>
  "join sep [] = []"
| "join sep [x] = x"
| "join sep (x # y # ys) = x @ sep @ join sep (y # ys)"

datatype regex =
    Never
  | Lit string
  | AnyChar
  | Digit
  | WordB
  | Bol
  | Seq regex regex
  | Alt regex regex
  | Opt regex
  | Star regex

text \<open>
  The fragment of regular expressions the sources use: a literal, \<open>[\s\S]\<close>
  (\<open>AnyChar\<close>), \<open>\d\<close>, \<open>\b\<close>, \<open>^\<close> under the \<open>/m\<close> flag (\<open>Bol\<close>),
  sequence, alternation, \<open>?\<close> and \<open>*\<close>. \<open>rmatch r ignoreCase s i\<close> lists the
  positions at which a match of \<open>r\<close> that starts at position \<open>i\<close> of \<open>s\<close> can end,
  in the order in which a backtracking matcher tries them (the left alternative first,
  the longer repetition first).
\<close>

primrec star_from :: "nat \<Rightarrow> (nat \<Rightarrow> nat list) \<Rightarrow> nat \<Rightarrow> nat list" where
  "star_from 0 f i = [i]"
| "star_from (Suc n) f i =
     concat (map (\<lambda>j. if i < j then star_from n f j else []) (f i)) @ [i]"

definition word_boundary :: "string \<Rightarrow> nat \<Rightarrow> bool" where
  "word_boundary s i =
     ((0 < i \<and> is_word_char (s ! (i - 1))) \<noteq> (i < length s \<and> is_word_char (s ! i)))"

definition line_start :: "string \<Rightarrow> nat \<Rightarrow> bool" where
  "line_start s i = (i = 0 \<or> is_line_terminator (s ! (i - 1)))"

primrec rmatch :: "regex \<Rightarrow> bool \<Rightarrow> string \<Rightarrow> nat \<Rightarrow> nat list" where
  "rmatch Never ic s i = []"
| "rmatch (Lit l) ic s i =
     (if map (canonicalize ic) (take (length l) (drop i s)) = map (canonicalize ic) l
      then [i + length l] else [])"
| "rmatch AnyChar ic s i = (if i < length s then [Suc i] else [])"
| "rmatch Digit ic s i = (if i < length s \<and> is_digit (s ! i) then [Suc i] else [])"
| "rmatch WordB ic s i = (if word_boundary s i then [i] else [])"
| "rmatch Bol ic s i = (if line_start s i then [i] else [])"
| "rmatch (Seq a b) ic s i = concat (map (rmatch b ic s) (rmatch a ic s i))"
| "rmatch (Alt a b) ic s i = rmatch a ic s i @ rmatch b ic s i"
| "rmatch (Opt a) ic s i = rmatch a ic s i @ [i]"
| "rmatch (Star a) ic s i = star_from (length s - i) (rmatch a ic s) i"

definition regex_test :: "regex \<Rightarrow> bool \<Rightarrow> string \<Rightarrow> bool" where
  \<comment> \<open>\<open>re.test(s)\<close>: some position starts a match.\<close>
  "regex_test r ic s = list_ex (\<lambda>i. rmatch r ic s i \<noteq> []) [0..<Suc (length s)]"

definition regex_match :: "regex \<Rightarrow> bool \<Rightarrow> string \<Rightarrow> string option" where
  \<comment> \<open>\<open>s.match(re)\<close> without the \<open>/g\<close> flag: the text of the first match, or null.\<close>
  "regex_match r ic s =
     (case find (\<lambda>i. rmatch r ic s i \<noteq> []) [0..<Suc (length s)] of
        None \<Rightarrow> None
      | Some i \<Rightarrow> Some (take (hd (rmatch r ic s i) - i) (drop i s)))"

fun lits :: "string list \<Rightarrow> regex" where
  \<comment> \<open>The alternation \<open>(l1|l2|...)\<close> of literals.\<close>
  "lits [] = Never"
| "lits [l] = Lit l"
| "lits (l # ls) = Alt (Lit l) (lits ls)"

definition words :: "regex \<Rightarrow> regex" where
  \<comment> \<open>\<open>\b(r)\b\<close>\<close>
  "words r = Seq WordB (Seq r WordB)"

section \<open>Task-type inference (core/taskType.ts)\<close>

datatype TaskType = Code | Reasoning | Research | Rewrite | Default

definition fence :: string where
  "fence = ''```''"

definition code_keywords :: "string list" where
  "code_keywords = [''stack trace'', ''error'', ''exception'', ''refactor'', ''implement'',
     ''bug'', ''typescript'', ''javascript'', ''bun'']"

definition rewrite_keywords :: "string list" where
  "rewrite_keywords = [''summarize'', ''rewrite'', ''rephrase'', ''tone'', ''polish'']"

definition code_regex :: regex where
  "code_regex = Alt (Lit fence) (words (lits code_keywords))"

definition rewrite_regex :: regex where
  "rewrite_regex = words (lits rewrite_keywords)"

definition research_regex :: regex where
  \<comment> \<open>\<open>/\b(latest|sources?|compare|research|cite)\b/\<close>\<close>
  "research_regex =
     words (Alt (Lit ''latest'') (Alt (Seq (Lit ''source'') (Opt (Lit ''s'')))
       (Alt (Lit ''compare'') (Alt (Lit ''research'') (Lit ''cite'')))))"

definition inferTaskType :: "string \<Rightarrow> TaskType" where
  "inferTaskType text =
     (let normalized = toLowerCase text
      in if regex_test code_regex False normalized then Code
         else if regex_test rewrite_regex False normalized then Rewrite
         else if regex_test research_regex False normalized then Research
         else Reasoning)"

section \<open>Heuristic scoring (core/evaluator/heuristics.ts)\<close>

definition REFUSAL_PATTERNS :: "string list" where
  "REFUSAL_PATTERNS = [''i can't'', ''i cannot'', ''i am not able'', ''i'm not able'',
     ''as an ai'', ''i do not have the ability'', ''i cannot comply'', ''unable to help'']"

definition codeblock_regex :: regex where
  \<comment> \<open>\<open>/```[\s\S]*```/\<close>\<close>
  "codeblock_regex = Seq (Lit fence) (Seq (Star AnyChar) (Lit fence))"

definition diff_regex :: regex where
  \<comment> \<open>\<open>/^diff --git|^\+\+\+|^\-\-\-|^\@\@/m\<close>\<close>
  "diff_regex =
     Alt (Seq Bol (Lit ''diff --git'')) (Alt (Seq Bol (Lit ''+++''))
       (Alt (Seq Bol (Lit ''---'')) (Seq Bol (Lit ''@@''))))"

definition filehint_regex :: regex where
  \<comment> \<open>\<open>/\b(src\/|lib\/|tests?\/|\.ts|\.js|\.py|\.go)\b/i\<close>\<close>
  "filehint_regex =
     words (Alt (Lit ''src/'') (Alt (Lit ''lib/'')
       (Alt (Seq (Lit ''test'') (Seq (Opt (Lit ''s'')) (Lit ''/'')))
         (lits [''.ts'', ''.js'', ''.py'', ''.go'']))))"

definition link_regex :: regex where
  \<comment> \<open>\<open>/(https?:\/\/|www\.)/\<close>\<close>
  "link_regex = Alt (Seq (Lit ''http'') (Seq (Opt (Lit ''s'')) (Lit ''://''))) (Lit ''www.'')"

definition heuristicScore :: "string \<Rightarrow> TaskType \<Rightarrow> bool \<Rightarrow> real" where
  "heuristicScore text taskType hasToolCalls =
     (let normalized = toLowerCase (trim text)
      in if normalized = [] \<and> \<not> hasToolCalls then 0
         else
           let score = (if hasToolCalls then 0.45 else 0.35);
               score = (if 120 \<le> length normalized then score + 0.15 else score);
               score = (if 400 \<le> length normalized then score + 0.2 else score);
               score = (if length normalized < 40 then score - 0.2 else score);
               score = (if list_ex (\<lambda>p. str_includes normalized p) REFUSAL_PATTERNS
                        then score - 0.7 else score);
               score =
                 (if taskType = Code then
                    let hasCodeBlock = regex_test codeblock_regex False text;
                        hasDiff = regex_test diff_regex False text;
                        hasFileHint = regex_test filehint_regex True text;
                        score = (if hasCodeBlock \<or> hasDiff then score + 0.25
                                 else if \<not> hasToolCalls then score - 0.3 else score)
                    in (if hasFileHint then score + 0.05 else score)
                  else score);
               score =
                 (if taskType = Research then
                    let hasLink = regex_test link_regex False text
                    in (if hasLink then score + 0.1 else score)
                  else score);
               score = (if score < 0 then 0 else score);
               score = (if 1 < score then 1 else score)
           in score)"

section \<open>The data model (core/types.ts)\<close>

datatype Role = System | User | Assistant | Tool

record Message =
  role :: Role
  content :: string

record RouterRequest =
  messages :: "Message list"
  taskType :: TaskType
  qualityThreshold :: "real option"
  maxWaitMs :: real
  attemptBudget :: int
  requestId :: string
  maxTokens :: "int option"
  stream :: bool
  allowDegrade :: bool
  resume :: bool

text \<open>
  \<open>qualityThreshold\<close> is declared a number, but \<open>route\<close> reads it with \<open>??\<close>, so the
  absent value is kept apart as \<open>None\<close>. An optional flag that is absent counts as
  \<open>False\<close>, as it does where the code tests it. The sampling parameters and the tool
  schema only travel to the provider and are left out.
\<close>

record CandidateModel =
  model_id :: string
  provider :: string
  model_context :: int
  capabilities :: "TaskType \<Rightarrow> real option"
  costWeight :: "real option"
  enabled :: bool

record NormalizedResponse =
  resp_text :: string
  toolCalls :: "nat option"
  totalTokens :: "int option"

text \<open>
  \<open>toolCalls\<close> holds the length of the optional array of tool calls, \<open>totalTokens\<close>
  is \<open>usage?.totalTokens\<close>.
\<close>

datatype Outcome = Success | EvalFail | RateLimit | Transient | Quota | Permanent

record RoutingAttempt =
  attempt_modelId :: string
  outcome :: Outcome
  attempt_score :: "real option"

record RoutingMetadata =
  attempts :: "RoutingAttempt list"
  selectedModelId :: string
  meta_taskType :: TaskType

datatype TextStream =
    StreamFromText string int int
  | StreamWithMetrics "string list"

text \<open>
  A stream is lazy: \<open>route\<close> returns it before any chunk is produced. It is
  represented by what it will be built from: the accepted text with the chunk size and
  the delay (\<open>streamFromText\<close>), or the provider's deltas (\<open>streamWithMetrics\<close>, whose
  accounting runs when the client has consumed the stream).
\<close>

datatype RouteResult =
    TextResult NormalizedResponse string RoutingMetadata
  | StreamResult TextStream string RoutingMetadata

datatype RouteError = NoSuitableModelError int | UnexpectedError string

record ModelHealth =
  cooldownUntil :: int
  degradedUntil :: int
  rateLimitStrikes :: nat
  lastRateLimitAt :: int
  rollingLatencyMs :: real
  rollingSuccessRate :: real

record ProviderBudget =
  usedTokens :: int
  softLimitTokens :: "int option"
  hardLimitTokens :: "int option"

record Weights =
  w_capability :: "real option"
  w_reliability :: "real option"
  w_cost :: "real option"
  w_latency :: "real option"
  w_degradePenalty :: "real option"
  w_budgetPenalty :: "real option"

record RoutingPolicy =
  preferred :: "string list option"
  minCapability :: real
  policy_qualityThreshold :: real
  maxAttemptsPerCycle :: int
  pollIntervalMs :: int
  policy_maxWaitMs :: real
  weights :: "Weights option"

record CodeEvaluationConfig =
  ce_enabled :: bool
  command :: string
  weight :: real
  failurePenalty :: real

record JudgeConfig =
  judge_enabled :: bool
  judge_modelId :: string
  prompt :: "string option"
  minScore :: "real option"

record PoliciesConfig =
  routing :: "TaskType \<Rightarrow> RoutingPolicy option"
  routing_default :: RoutingPolicy
  streaming_chunkSize :: "int option"
  streaming_chunkDelayMs :: "int option"
  codeEvaluation :: "CodeEvaluationConfig option"
  evaluationJudge :: "JudgeConfig option"

text \<open>
  \<open>routing\<close> gives the policies of the task types that have one of their own;
  \<open>routing_default\<close> is the entry \<open>routing.default\<close>.
\<close>

datatype SessionStatus = Pending | Complete

record SessionRecord =
  session_requestId :: string
  session_taskType :: TaskType
  status :: SessionStatus
  responseText :: "string option"
  session_selectedModelId :: "string option"
  session_attempts :: "RoutingAttempt list"
  createdAt :: int
  updatedAt :: int

datatype AdapterErrorType = RATE_LIMIT | QUOTA_EXCEEDED | TRANSIENT | PERMANENT

datatype Thrown =
    AdapterError AdapterErrorType string "int option"
  | OtherError string

text \<open>
  What a provider call can throw: an \<open>AdapterError\<close> with its type, message and optional
  \<open>retryAfterMs\<close>, or any other exception.
\<close>

datatype CallSite = FromRoute | FromJudge

datatype AdapterCall = GenerateCall CallSite string | StreamCall string

record 'x World =
  now :: int
  healthStore :: "string \<rightharpoonup> ModelHealth"
  budgetStore :: "string \<rightharpoonup> ProviderBudget"
  sessionStore :: "string \<rightharpoonup> SessionRecord"
  ext :: 'x
  calls :: "AdapterCall list"

text \<open>
  Everything \<open>route\<close> reads and writes outside its own variables: the clock behind
  \<open>Date.now()\<close>, the three stores (the in-memory implementations, a map each), and the
  state \<open>ext\<close> of the world outside the process (the providers, the shell). Time passes
  while the router awaits a provider, the evaluation command or \<open>sleep\<close>; \<open>calls\<close>
  records every invocation of \<open>adapter.generate\<close> and \<open>adapter.stream\<close>, with the
  model called and, for \<open>generate\<close>, whether \<open>route\<close> or the judge hook called.
\<close>

record 'x RouterDeps =
  models :: "CandidateModel list"
  policies :: PoliciesConfig
  adapter_generate ::
    "CandidateModel \<Rightarrow> RouterRequest \<Rightarrow> 'x \<Rightarrow> (Thrown + NormalizedResponse) \<times> nat \<times> 'x"
  adapter_stream ::
    "CandidateModel \<Rightarrow> RouterRequest \<Rightarrow> 'x \<Rightarrow> (Thrown + string list) \<times> nat \<times> 'x"
  run_command :: "string \<Rightarrow> 'x \<Rightarrow> bool \<times> nat \<times> 'x"
  has_sessionStore :: bool

text \<open>
  The provider adapter and the shell are parameters: a call is given the external state
  and answers with its result (a response or what it throws; whether the command exited
  with 0), the milliseconds it took and the new external state.
\<close>

section \<open>The stores (core/healthStore.ts, core/budgetStore.ts, core/sessionStore.ts)\<close>

definition DEFAULT_HEALTH :: ModelHealth where
  "DEFAULT_HEALTH =
     \<lparr>cooldownUntil = 0, degradedUntil = 0, rateLimitStrikes = 0, lastRateLimitAt = 0,
      rollingLatencyMs = 0, rollingSuccessRate = 1\<rparr>"

definition EMA_ALPHA :: real where
  "EMA_ALPHA = 0.2"

definition health_get :: "'x World \<Rightarrow> string \<Rightarrow> ModelHealth" where
  "health_get w modelId =
     (case healthStore w modelId of Some h \<Rightarrow> h | None \<Rightarrow> DEFAULT_HEALTH)"

definition markRateLimited ::
  "string \<Rightarrow> int \<Rightarrow> nat option \<Rightarrow> int option \<Rightarrow> 'x World \<Rightarrow> 'x World" where
  "markRateLimited modelId cooldownMs strikes lastAt w =
     (let existing = health_get w modelId
      in w\<lparr>healthStore := (healthStore w)(modelId \<mapsto>
           \<lparr>cooldownUntil = now w + cooldownMs,
            degradedUntil = degradedUntil existing,
            rateLimitStrikes = (case strikes of Some n \<Rightarrow> n | None \<Rightarrow> rateLimitStrikes existing),
            lastRateLimitAt = (case lastAt of Some t \<Rightarrow> t | None \<Rightarrow> lastRateLimitAt existing),
            rollingLatencyMs = rollingLatencyMs existing,
            rollingSuccessRate = rollingSuccessRate existing\<rparr>)\<rparr>)"

definition markDegraded :: "string \<Rightarrow> int \<Rightarrow> 'x World \<Rightarrow> 'x World" where
  "markDegraded modelId degradeMs w =
     (let existing = health_get w modelId
      in w\<lparr>healthStore := (healthStore w)(modelId \<mapsto>
           \<lparr>cooldownUntil = cooldownUntil existing,
            degradedUntil = now w + degradeMs,
            rateLimitStrikes = rateLimitStrikes existing,
            lastRateLimitAt = lastRateLimitAt existing,
            rollingLatencyMs = rollingLatencyMs existing,
            rollingSuccessRate = rollingSuccessRate existing\<rparr>)\<rparr>)"

definition health_recordResult ::
  "string \<Rightarrow> bool \<Rightarrow> int option \<Rightarrow> 'x World \<Rightarrow> 'x World" where
  "health_recordResult modelId success latencyMs w =
     (let existing = health_get w modelId;
          nextSuccessRate =
            rollingSuccessRate existing * (1 - EMA_ALPHA) + (if success then 1 else 0) * EMA_ALPHA;
          latency = (case latencyMs of Some l \<Rightarrow> of_int l | None \<Rightarrow> rollingLatencyMs existing);
          nextLatency = rollingLatencyMs existing * (1 - EMA_ALPHA) + latency * EMA_ALPHA
      in w\<lparr>healthStore := (healthStore w)(modelId \<mapsto>
           existing\<lparr>rollingLatencyMs := nextLatency, rollingSuccessRate := nextSuccessRate\<rparr>)\<rparr>)"

definition DEFAULT_BUDGET :: ProviderBudget where
  "DEFAULT_BUDGET = \<lparr>usedTokens = 0, softLimitTokens = None, hardLimitTokens = None\<rparr>"

definition budget_get :: "'x World \<Rightarrow> string \<Rightarrow> ProviderBudget" where
  "budget_get w p = (case budgetStore w p of Some b \<Rightarrow> b | None \<Rightarrow> DEFAULT_BUDGET)"

definition budget_record :: "string \<Rightarrow> int \<Rightarrow> 'x World \<Rightarrow> 'x World" where
  "budget_record p tokens w =
     (let existing = budget_get w p
      in w\<lparr>budgetStore := (budgetStore w)(p \<mapsto>
           existing\<lparr>usedTokens := usedTokens existing + tokens\<rparr>)\<rparr>)"

definition session_recordAttempt ::
  "string \<Rightarrow> TaskType \<Rightarrow> RoutingAttempt \<Rightarrow> 'x World \<Rightarrow> 'x World" where
  "session_recordAttempt rid tt attempt w =
     (let existing = sessionStore w rid
      in w\<lparr>sessionStore := (sessionStore w)(rid \<mapsto>
           \<lparr>session_requestId = rid,
            session_taskType = tt,
            status = (case existing of Some e \<Rightarrow> status e | None \<Rightarrow> Pending),
            responseText = (case existing of Some e \<Rightarrow> responseText e | None \<Rightarrow> None),
            session_selectedModelId =
              (case existing of Some e \<Rightarrow> session_selectedModelId e | None \<Rightarrow> None),
            session_attempts =
              (case existing of Some e \<Rightarrow> session_attempts e | None \<Rightarrow> []) @ [attempt],
            createdAt = (case existing of Some e \<Rightarrow> createdAt e | None \<Rightarrow> now w),
            updatedAt = now w\<rparr>)\<rparr>)"

definition session_recordResult ::
  "string \<Rightarrow> TaskType \<Rightarrow> string \<Rightarrow> string \<Rightarrow> 'x World \<Rightarrow> 'x World" where
  "session_recordResult rid tt modelId txt w =
     (let existing = sessionStore w rid
      in w\<lparr>sessionStore := (sessionStore w)(rid \<mapsto>
           \<lparr>session_requestId = rid,
            session_taskType = tt,
            status = Complete,
            responseText = Some txt,
            session_selectedModelId = Some modelId,
            session_attempts = (case existing of Some e \<Rightarrow> session_attempts e | None \<Rightarrow> []),
            createdAt = (case existing of Some e \<Rightarrow> createdAt e | None \<Rightarrow> now w),
            updatedAt = now w\<rparr>)\<rparr>)"

section \<open>Evaluation (core/evaluator/index.ts, core/evaluator/codeEval.ts)\<close>

definition runCodeEvaluation ::
  "'x RouterDeps \<Rightarrow> CodeEvaluationConfig \<Rightarrow> 'x World \<Rightarrow> bool \<times> 'x World" where
  \<comment> \<open>Returns \<open>passed\<close>; the empty command fails without running anything.\<close>
  "runCodeEvaluation deps config w =
     (let cmd = trim (command config)
      in if cmd = [] then (False, w)
         else (case run_command deps cmd (ext w) of
                 (passed, duration, x) \<Rightarrow> (passed, w\<lparr>now := now w + int duration, ext := x\<rparr>)))"

definition evaluate ::
  "'x RouterDeps \<Rightarrow> string \<Rightarrow> RouterRequest \<Rightarrow> CodeEvaluationConfig option \<Rightarrow> bool
     \<Rightarrow> 'x World \<Rightarrow> real \<times> 'x World" where
  "evaluate deps txt request codeEvalConfig hasToolCalls w =
     (let heuristic = heuristicScore txt (taskType request) hasToolCalls;
          (score, w) =
            (case codeEvalConfig of
               None \<Rightarrow> (heuristic, w)
             | Some config \<Rightarrow>
                 if taskType request = Code \<and> ce_enabled config
                 then (case runCodeEvaluation deps config w of
                         (passed, w') \<Rightarrow>
                           (if passed then heuristic + weight config
                            else heuristic - failurePenalty config, w'))
                 else (heuristic, w));
          score = (if score < 0 then 0 else score);
          score = (if 1 < score then 1 else score)
      in (score, w))"

section \<open>Model scoring (core/scoring.ts)\<close>

definition weight_or :: "Weights option \<Rightarrow> (Weights \<Rightarrow> real option) \<Rightarrow> real \<Rightarrow> real" where
  \<comment> \<open>A field of \<open>{...defaults, ...policy.weights}\<close>.\<close>
  "weight_or ws field dflt =
     (case ws of None \<Rightarrow> dflt | Some v \<Rightarrow> (case field v of None \<Rightarrow> dflt | Some x \<Rightarrow> x))"

definition scoreModel ::
  "CandidateModel \<Rightarrow> TaskType \<Rightarrow> ModelHealth \<Rightarrow> ProviderBudget \<Rightarrow> RoutingPolicy \<Rightarrow> int \<Rightarrow> real" where
  \<comment> \<open>The last argument is the reading of \<open>Date.now()\<close>.\<close>
  "scoreModel model tt health budget policy nowMs =
     (let ws = weights policy;
          capabilityScore = (case capabilities model tt of Some c \<Rightarrow> c | None \<Rightarrow> 0);
          score = weight_or ws w_capability 1 * capabilityScore;
          score = score - weight_or ws w_cost 0.5 * (case costWeight model of Some c \<Rightarrow> c | None \<Rightarrow> 1);
          score = (if nowMs < degradedUntil health
                   then score - weight_or ws w_degradePenalty 1.5 else score);
          score = (case softLimitTokens budget of
                     None \<Rightarrow> score
                   | Some soft \<Rightarrow>
                       if soft \<noteq> 0 \<and> of_int soft * 0.9 \<le> (of_int (usedTokens budget) :: real)
                       then score - weight_or ws w_budgetPenalty 1 else score);
          successRate = rollingSuccessRate health;
          score = score + weight_or ws w_reliability 0.5 * successRate;
          latencyMs = rollingLatencyMs health;
          score = (if 0 < latencyMs
                   then score - weight_or ws w_latency 0.2 * min (latencyMs / 1000) 5 else score)
      in score)"

section \<open>Context fitting (core/router.ts, fitMessagesToContext)\<close>

record FitResult =
  fit_messages :: "Message list"
  trimmedCount :: nat

fun findIndex :: "('a \<Rightarrow> bool) \<Rightarrow> 'a list \<Rightarrow> nat option" where
  \<comment> \<open>\<open>None\<close> stands for the \<open>-1\<close> of \<open>Array.prototype.findIndex\<close>.\<close>
  "findIndex P [] = None"
| "findIndex P (x # xs) = (if P x then Some 0 else map_option Suc (findIndex P xs))"

definition splice1 :: "'a list \<Rightarrow> nat \<Rightarrow> 'a list" where
  \<comment> \<open>The array after \<open>splice(i, 1)\<close>.\<close>
  "splice1 xs i = take i xs @ drop (Suc i) xs"

lemma findIndex_less: "findIndex P xs = Some i \<Longrightarrow> i < length xs"
  by (induction xs arbitrary: i) (auto split: if_splits)

function fit_loop :: "Message list \<Rightarrow> int \<Rightarrow> nat \<Rightarrow> int \<Rightarrow> int \<Rightarrow> FitResult option" where
  "fit_loop trimmed totalLength count maxContext maxOutput =
     (let estimated = \<lceil>of_int totalLength / (4 :: real)\<rceil> + maxOutput
      in if estimated \<le> maxContext
         then Some \<lparr>fit_messages = trimmed, trimmedCount = count\<rparr>
         else (case findIndex (\<lambda>msg. role msg \<noteq> System) trimmed of
                 None \<Rightarrow> None
               | Some removableIndex \<Rightarrow>
                   let removed = trimmed ! removableIndex;
                       rest = splice1 trimmed removableIndex;
                       totalLength = totalLength - int (length (content removed));
                       totalLength = (if 1 \<le> length rest then totalLength - 1 else totalLength)
                   in fit_loop rest totalLength (count + 1) maxContext maxOutput))"
  by pat_completeness auto
termination
  by (relation "measure (\<lambda>(trimmed, _). length trimmed)")
     (auto simp: splice1_def dest: findIndex_less)

declare fit_loop.simps [simp del]

definition fitMessagesToContext :: "Message list \<Rightarrow> int \<Rightarrow> int \<Rightarrow> FitResult option" where
  "fitMessagesToContext msgs maxContext maxOutput =
     (let trimmed = msgs;
          totalLength = (\<Sum>msg\<leftarrow>trimmed. int (length (content msg)));
          totalLength = (if 1 < length trimmed
                         then totalLength + (int (length trimmed) - 1) else totalLength)
      in fit_loop trimmed totalLength 0 maxContext maxOutput)"

section \<open>The routing engine (core/router.ts)\<close>

definition RATE_LIMIT_BASE_MS :: int where
  "RATE_LIMIT_BASE_MS = 2000"

definition RATE_LIMIT_CAP_MS :: int where
  "RATE_LIMIT_CAP_MS = 60000"

definition RATE_LIMIT_WINDOW_MS :: int where
  "RATE_LIMIT_WINDOW_MS = 60000"

definition falsy_or :: "'a::zero \<Rightarrow> 'a \<Rightarrow> 'a" where
  \<comment> \<open>\<open>a || b\<close> on numbers: \<open>0\<close> is falsy.\<close>
  "falsy_or a b = (if a = 0 then b else a)"

definition nullish :: "'a option \<Rightarrow> 'a \<Rightarrow> 'a" where
  \<comment> \<open>\<open>a ?? b\<close>\<close>
  "nullish a b = (case a of Some v \<Rightarrow> v | None \<Rightarrow> b)"

definition policyForTask :: "PoliciesConfig \<Rightarrow> TaskType \<Rightarrow> RoutingPolicy" where
  "policyForTask ps tt =
     (if tt = Default then routing_default ps else nullish (routing ps tt) (routing_default ps))"

definition buildMetadata :: "RoutingAttempt list \<Rightarrow> string \<Rightarrow> TaskType \<Rightarrow> RoutingMetadata" where
  "buildMetadata atts selected tt =
     \<lparr>attempts = atts, selectedModelId = selected, meta_taskType = tt\<rparr>"

definition eligible :: "RouterRequest \<Rightarrow> RoutingPolicy \<Rightarrow> string list \<Rightarrow> CandidateModel \<Rightarrow> bool" where
  "eligible request policy pref model =
     (if \<not> enabled model then False
      else if 0 < length pref \<and> model_id model \<notin> set pref then False
      else let capability = nullish (capabilities model (taskType request)) 0
           in if capability < minCapability policy then False else True)"

definition candidate ::
  "RouterRequest \<Rightarrow> RoutingPolicy \<Rightarrow> 'x World \<Rightarrow> CandidateModel \<Rightarrow> (CandidateModel \<times> real) option" where
  "candidate request policy w model =
     (let health = health_get w (model_id model)
      in if now w < cooldownUntil health then None
         else let budget = budget_get w (provider model)
              in if (case hardLimitTokens budget of
                       None \<Rightarrow> False
                     | Some hard \<Rightarrow> hard \<noteq> 0 \<and> hard \<le> usedTokens budget)
                 then None
                 else Some (model, scoreModel model (taskType request) health budget policy (now w)))"

definition indexOf :: "'a list \<Rightarrow> 'a \<Rightarrow> int" where
  "indexOf xs x = (case findIndex (\<lambda>y. y = x) xs of Some i \<Rightarrow> int i | None \<Rightarrow> - 1)"

definition MAX_SAFE_INTEGER :: int where
  "MAX_SAFE_INTEGER = 9007199254740991"

definition compare_candidates ::
  "string list \<Rightarrow> CandidateModel \<times> real \<Rightarrow> CandidateModel \<times> real \<Rightarrow> real" where
  \<comment> \<open>The comparator given to \<open>sort\<close>: negative when \<open>a\<close> goes first.\<close>
  "compare_candidates pref a b =
     (if snd b \<noteq> snd a then snd b - snd a
      else let indexA = indexOf pref (model_id (fst a));
               indexB = indexOf pref (model_id (fst b));
               safeA = (if indexA = - 1 then MAX_SAFE_INTEGER else indexA);
               safeB = (if indexB = - 1 then MAX_SAFE_INTEGER else indexB)
           in of_int (safeA - safeB))"

fun insert_sorted :: "('a \<Rightarrow> 'a \<Rightarrow> real) \<Rightarrow> 'a \<Rightarrow> 'a list \<Rightarrow> 'a list" where
  "insert_sorted cmp x [] = [x]"
| "insert_sorted cmp x (y # ys) =
     (if cmp x y \<le> 0 then x # y # ys else y # insert_sorted cmp x ys)"

definition sort_with :: "('a \<Rightarrow> 'a \<Rightarrow> real) \<Rightarrow> 'a list \<Rightarrow> 'a list" where
  \<comment> \<open>\<open>Array.prototype.sort\<close> with a comparator: a stable sort.\<close>
  "sort_with cmp xs = foldr (insert_sorted cmp) xs []"

definition orderedCandidates ::
  "'x RouterDeps \<Rightarrow> RouterRequest \<Rightarrow> RoutingPolicy \<Rightarrow> string list \<Rightarrow> 'x World \<Rightarrow> CandidateModel list" where
  "orderedCandidates deps request policy pref w =
     (let eligibleModels = filter (eligible request policy pref) (models deps);
          candidates = map (candidate request policy w) eligibleModels
      in map fst (sort_with (compare_candidates pref) (List.map_filter (\<lambda>entry. entry) candidates)))"

definition session_attempt ::
  "'x RouterDeps \<Rightarrow> RouterRequest \<Rightarrow> RoutingAttempt \<Rightarrow> 'x World \<Rightarrow> 'x World" where
  \<comment> \<open>\<open>await deps.sessionStore?.recordAttempt(request.requestId, request.taskType, attempt)\<close>\<close>
  "session_attempt deps request attempt w =
     (if has_sessionStore deps
      then session_recordAttempt (requestId request) (taskType request) attempt w else w)"

definition finalizeResult ::
  "'x RouterDeps \<Rightarrow> RouterRequest \<Rightarrow> CandidateModel \<Rightarrow> NormalizedResponse \<Rightarrow> RoutingAttempt list
     \<Rightarrow> 'x World \<Rightarrow> RouteResult \<times> 'x World" where
  "finalizeResult deps request model response attemptsLog w =
     (let total = nullish (totalTokens response) 0;
          w = (if 0 < total then budget_record (provider model) total w else w);
          recorded =
            (if has_sessionStore deps
             then session_recordResult (requestId request) (taskType request) (model_id model)
                    (resp_text response) w
             else w);
          metadata = buildMetadata attemptsLog (model_id model) (taskType request)
      in if stream request \<and> (case toolCalls response of None \<Rightarrow> True | Some n \<Rightarrow> n = 0)
         then let chunkSize = nullish (streaming_chunkSize (policies deps)) 60;
                  delayMs = nullish (streaming_chunkDelayMs (policies deps)) 0
              in (StreamResult (StreamFromText (resp_text response) chunkSize delayMs)
                    (model_id model) metadata, recorded)
         else (TextResult response (model_id model) metadata, recorded))"

definition judge_regex :: regex where
  \<comment> \<open>\<open>/0(?:\.\d+)?|1(?:\.0+)?/\<close>\<close>
  "judge_regex =
     Alt (Seq (Lit ''0'') (Opt (Seq (Lit ''.'') (Seq Digit (Star Digit)))))
         (Seq (Lit ''1'') (Opt (Seq (Lit ''.'') (Seq (Lit ''0'') (Star (Lit ''0''))))))"

definition digits_value :: "string \<Rightarrow> nat" where
  "digits_value ds = foldl (\<lambda>acc c. 10 * acc + (code_unit c - 48)) 0 ds"

definition decimal_value :: "string \<Rightarrow> real" where
  \<comment> \<open>\<open>Number(s)\<close> for an unsigned decimal literal \<open>d+\<close> or \<open>d+.d+\<close>.\<close>
  "decimal_value s =
     (let whole = takeWhile (\<lambda>c. c \<noteq> CHR ''.'') s;
          frac = drop (Suc (length whole)) s
      in of_nat (digits_value whole) + of_nat (digits_value frac) / 10 ^ length frac)"

definition taskType_name :: "TaskType \<Rightarrow> string" where
  "taskType_name tt =
     (case tt of Code \<Rightarrow> ''code'' | Reasoning \<Rightarrow> ''reasoning'' | Research \<Rightarrow> ''research''
      | Rewrite \<Rightarrow> ''rewrite'' | Default \<Rightarrow> ''default'')"

definition call_generate ::
  "'x RouterDeps \<Rightarrow> CallSite \<Rightarrow> CandidateModel \<Rightarrow> RouterRequest \<Rightarrow> 'x World
     \<Rightarrow> (Thrown + NormalizedResponse) \<times> 'x World" where
  \<comment> \<open>\<open>await deps.adapter.generate({ model, request })\<close>\<close>
  "call_generate deps site model request w =
     (case adapter_generate deps model request (ext w) of
        (res, duration, x) \<Rightarrow>
          (res, w\<lparr>now := now w + int duration, ext := x,
                  calls := calls w @ [GenerateCall site (model_id model)]\<rparr>))"

definition call_stream ::
  "'x RouterDeps \<Rightarrow> CandidateModel \<Rightarrow> RouterRequest \<Rightarrow> 'x World
     \<Rightarrow> (Thrown + string list) \<times> 'x World" where
  \<comment> \<open>\<open>await deps.adapter.stream({ model, request })\<close>\<close>
  "call_stream deps model request w =
     (case adapter_stream deps model request (ext w) of
        (res, duration, x) \<Rightarrow>
          (res, w\<lparr>now := now w + int duration, ext := x,
                  calls := calls w @ [StreamCall (model_id model)]\<rparr>))"

definition maybeJudgeScore ::
  "'x RouterDeps \<Rightarrow> string \<Rightarrow> RouterRequest \<Rightarrow> CandidateModel \<Rightarrow> real \<Rightarrow> real \<Rightarrow> 'x World
     \<Rightarrow> real option \<times> 'x World" where
  "maybeJudgeScore deps candidateText request candidateModel score threshold w =
     (case evaluationJudge (policies deps) of
        None \<Rightarrow> (None, w)
      | Some judgeConfig \<Rightarrow>
          if \<not> judge_enabled judgeConfig then (None, w)
          else if model_id candidateModel = judge_modelId judgeConfig then (None, w)
          else
            let lowest = nullish (minScore judgeConfig) (max 0 (threshold - 0.2))
            in if score < lowest then (None, w)
               else (case find (\<lambda>m. model_id m = judge_modelId judgeConfig) (models deps) of
                  None \<Rightarrow> (None, w)
                | Some judgeModel \<Rightarrow>
                    let instruction = nullish (prompt judgeConfig)
                          ''You are a strict evaluator. Return only a number between 0 and 1.'';
                        judgeRequest = request\<lparr>messages :=
                          [\<lparr>role = System, content = instruction\<rparr>,
                           \<lparr>role = User, content =
                              ''Task type: '' @ taskType_name (taskType request) @ [CHR 0x0A] @
                              ''Candidate response:'' @ [CHR 0x0A] @ candidateText @
                              [CHR 0x0A, CHR 0x0A] @ ''Score (0-1):''\<rparr>],
                          stream := False\<rparr>
                    in (case call_generate deps FromJudge judgeModel judgeRequest w of
                          (Inl thrown, w') \<Rightarrow> (None, w')
                        | (Inr response, w') \<Rightarrow>
                            (case regex_match judge_regex False (resp_text response) of
                               None \<Rightarrow> (None, w')
                             | Some matched \<Rightarrow> (Some (decimal_value matched), w')))))"

datatype AttemptStep = Returned RouteResult | Continue

definition succeed ::
  "'x RouterDeps \<Rightarrow> RouterRequest \<Rightarrow> CandidateModel \<Rightarrow> NormalizedResponse \<Rightarrow> int \<Rightarrow> bool \<Rightarrow> real
     \<Rightarrow> RoutingAttempt list \<Rightarrow> 'x World \<Rightarrow> AttemptStep \<times> RoutingAttempt list \<times> 'x World" where
  \<comment> \<open>The three accepting branches of \<open>route\<close>: they differ in the flag given to
      \<open>healthStore.recordResult\<close> and in the score that is logged.\<close>
  "succeed deps request model response latencyMs healthy score attemptsLog w =
     (let w = health_recordResult (model_id model) healthy (Some latencyMs) w;
          entry = \<lparr>attempt_modelId = model_id model, outcome = Success, attempt_score = Some score\<rparr>;
          attemptsLog = attemptsLog @ [entry];
          w = session_attempt deps request entry w
      in (case finalizeResult deps request model response attemptsLog w of
            (result, w') \<Rightarrow> (Returned result, attemptsLog, w')))"

definition failed_attempt ::
  "'x RouterDeps \<Rightarrow> RouterRequest \<Rightarrow> CandidateModel \<Rightarrow> Outcome \<Rightarrow> int
     \<Rightarrow> RoutingAttempt list \<Rightarrow> 'x World \<Rightarrow> RoutingAttempt list \<times> 'x World" where
  \<comment> \<open>What every branch of the \<open>catch\<close> block ends with: the log entry, the failure in the
      health store, the entry in the session store.\<close>
  "failed_attempt deps request model oc latencyMs attemptsLog w =
     (let entry = \<lparr>attempt_modelId = model_id model, outcome = oc, attempt_score = None\<rparr>;
          attemptsLog = attemptsLog @ [entry];
          w = health_recordResult (model_id model) False (Some latencyMs) w;
          w = session_attempt deps request entry w
      in (attemptsLog, w))"

definition handleThrown ::
  "'x RouterDeps \<Rightarrow> RouterRequest \<Rightarrow> CandidateModel \<Rightarrow> int \<Rightarrow> Thrown
     \<Rightarrow> RoutingAttempt list \<Rightarrow> 'x World \<Rightarrow> RoutingAttempt list \<times> 'x World" where
  \<comment> \<open>The \<open>catch\<close> block of an attempt.\<close>
  "handleThrown deps request model attemptStart thrown attemptsLog w =
     (let latencyMs = now w - attemptStart
      in case thrown of
           AdapterError ty msg retryAfterMs \<Rightarrow>
             if ty = RATE_LIMIT then
               let nowMs = now w;
                   health = health_get w (model_id model);
                   withinWindow = (nowMs - lastRateLimitAt health \<le> RATE_LIMIT_WINDOW_MS);
                   strikes = (if withinWindow then rateLimitStrikes health + 1 else 1);
                   cooldownMs = nullish retryAfterMs
                     (min (RATE_LIMIT_BASE_MS * 2 ^ (strikes - 1)) RATE_LIMIT_CAP_MS);
                   w = markRateLimited (model_id model) cooldownMs (Some strikes) (Some nowMs) w
               in failed_attempt deps request model RateLimit latencyMs attemptsLog w
             else if ty = TRANSIENT then
               failed_attempt deps request model Transient latencyMs attemptsLog w
             else if ty = QUOTA_EXCEEDED then
               failed_attempt deps request model Quota latencyMs attemptsLog w
             else
               let w = (if msg = ''context_length_exceeded''
                        then markDegraded (model_id model) 60000 w else w)
               in failed_attempt deps request model Permanent latencyMs attemptsLog w
         | OtherError msg \<Rightarrow>
             failed_attempt deps request model Permanent latencyMs attemptsLog w)"

definition reject ::
  "'x RouterDeps \<Rightarrow> RouterRequest \<Rightarrow> CandidateModel \<Rightarrow> int \<Rightarrow> real
     \<Rightarrow> RoutingAttempt list \<Rightarrow> 'x World \<Rightarrow> AttemptStep \<times> RoutingAttempt list \<times> 'x World" where
  \<comment> \<open>The end of the \<open>try\<close> block: the response failed the quality gate.\<close>
  "reject deps request model latencyMs score attemptsLog w =
     (let w = health_recordResult (model_id model) False (Some latencyMs) w;
          entry = \<lparr>attempt_modelId = model_id model, outcome = EvalFail, attempt_score = Some score\<rparr>;
          attemptsLog = attemptsLog @ [entry];
          w = session_attempt deps request entry w
      in (Continue, attemptsLog, markDegraded (model_id model) 30000 w))"

definition attemptModel ::
  "'x RouterDeps \<Rightarrow> RouterRequest \<Rightarrow> real \<Rightarrow> CandidateModel \<Rightarrow> RoutingAttempt list \<Rightarrow> 'x World
     \<Rightarrow> AttemptStep \<times> RoutingAttempt list \<times> 'x World" where
  \<comment> \<open>The body of the \<open>for\<close> loop over the ordered candidates.\<close>
  "attemptModel deps request threshold model attemptsLog w =
     (let attemptStart = now w
      in case fitMessagesToContext (messages request) (model_context model)
                (nullish (maxTokens request) 0) of
           None \<Rightarrow>
             let entry = \<lparr>attempt_modelId = model_id model, outcome = Permanent,
                          attempt_score = None\<rparr>
             in (Continue, attemptsLog @ [entry], session_attempt deps request entry w)
         | Some fittedMessages \<Rightarrow>
             let fitted = request\<lparr>messages := fit_messages fittedMessages\<rparr>
             in if stream request \<and> allowDegrade request then
                  (case call_stream deps model fitted w of
                     (Inl thrown, w1) \<Rightarrow>
                       (case handleThrown deps request model attemptStart thrown attemptsLog w1 of
                          (attemptsLog', w2) \<Rightarrow> (Continue, attemptsLog', w2))
                   | (Inr providerStream, w1) \<Rightarrow>
                       let entry = \<lparr>attempt_modelId = model_id model, outcome = Success,
                                    attempt_score = None\<rparr>;
                           attemptsLog' = attemptsLog @ [entry]
                       in (Returned (StreamResult (StreamWithMetrics providerStream) (model_id model)
                             (buildMetadata attemptsLog' (model_id model) (taskType request))),
                           attemptsLog', session_attempt deps request entry w1))
                else
                  (case call_generate deps FromRoute model fitted w of
                     (Inl thrown, w1) \<Rightarrow>
                       (case handleThrown deps request model attemptStart thrown attemptsLog w1 of
                          (attemptsLog', w2) \<Rightarrow> (Continue, attemptsLog', w2))
                   | (Inr response, w1) \<Rightarrow>
                       let latencyMs = now w1 - attemptStart;
                           hasToolCalls = (case toolCalls response of None \<Rightarrow> False | Some n \<Rightarrow> 0 < n)
                       in (case evaluate deps (resp_text response) request
                                  (codeEvaluation (policies deps)) hasToolCalls w1 of
                             (score, w2) \<Rightarrow>
                               if allowDegrade request then
                                 succeed deps request model response latencyMs (threshold \<le> score)
                                   score attemptsLog w2
                               else if threshold \<le> score then
                                 succeed deps request model response latencyMs True score attemptsLog w2
                               else
                                 (case maybeJudgeScore deps (resp_text response) request model
                                         score threshold w2 of
                                    (None, w3) \<Rightarrow>
                                      reject deps request model latencyMs score attemptsLog w3
                                  | (Some judgedScore, w3) \<Rightarrow>
                                      if threshold \<le> judgedScore then
                                        succeed deps request model response latencyMs True
                                          judgedScore attemptsLog w3
                                      else
                                        reject deps request model latencyMs score attemptsLog w3))))"

fun attemptLoop ::
  "'x RouterDeps \<Rightarrow> RouterRequest \<Rightarrow> real \<Rightarrow> int \<Rightarrow> nat \<Rightarrow> CandidateModel list
     \<Rightarrow> RoutingAttempt list \<Rightarrow> 'x World \<Rightarrow> AttemptStep \<times> RoutingAttempt list \<times> 'x World" where
  \<comment> \<open>\<open>for (const model of ordered) { if (attempts++ >= attemptBudget) break; ... }\<close>\<close>
  "attemptLoop deps request threshold budget n [] attemptsLog w = (Continue, attemptsLog, w)"
| "attemptLoop deps request threshold budget n (model # rest) attemptsLog w =
     (if budget \<le> int n then (Continue, attemptsLog, w)
      else (case attemptModel deps request threshold model attemptsLog w of
              (Returned result, attemptsLog', w') \<Rightarrow> (Returned result, attemptsLog', w')
            | (Continue, attemptsLog', w') \<Rightarrow>
                attemptLoop deps request threshold budget (Suc n) rest attemptsLog' w'))"

definition sleep :: "int \<Rightarrow> 'x World \<Rightarrow> 'x World" where
  \<comment> \<open>\<open>await sleep(ms)\<close>: a timer of a negative delay fires at once.\<close>
  "sleep ms w = w\<lparr>now := now w + max 0 ms\<rparr>"

type_synonym 'x RouteOutcome = "(RouteError + RouteResult) \<times> RoutingAttempt list \<times> 'x World"

fun routeLoop ::
  "nat \<Rightarrow> 'x RouterDeps \<Rightarrow> RouterRequest \<Rightarrow> RoutingPolicy \<Rightarrow> real \<Rightarrow> int \<Rightarrow> real \<Rightarrow> string list
     \<Rightarrow> int \<Rightarrow> RoutingAttempt list \<Rightarrow> 'x World \<Rightarrow> 'x RouteOutcome option" where
  \<comment> \<open>The \<open>while\<close> loop of \<open>route\<close> and the \<open>throw\<close> after it. The first argument bounds
      the number of cycles; \<open>None\<close> says that the bound was reached.\<close>
  "routeLoop 0 deps request policy maxWait budget threshold pref start attemptsLog w = None"
| "routeLoop (Suc fuel) deps request policy maxWait budget threshold pref start attemptsLog w =
     (if of_int (now w - start) < maxWait then
        (case attemptLoop deps request threshold budget 0
                (orderedCandidates deps request policy pref w) attemptsLog w of
           (Returned result, attemptsLog', w') \<Rightarrow> Some (Inr result, attemptsLog', w')
         | (Continue, attemptsLog', w') \<Rightarrow>
             if maxWait \<le> of_int (now w' - start)
             then Some (Inl (NoSuitableModelError 10000), attemptsLog', w')
             else routeLoop fuel deps request policy maxWait budget threshold pref start
                    attemptsLog' (sleep (pollIntervalMs policy) w'))
      else Some (Inl (NoSuitableModelError 10000), attemptsLog, w))"

definition resumeHit :: "'x RouterDeps \<Rightarrow> RouterRequest \<Rightarrow> 'x World \<Rightarrow> RouteResult option" where
  \<comment> \<open>The resume path at the head of \<open>route\<close>.\<close>
  "resumeHit deps request w =
     (if resume request \<and> has_sessionStore deps then
        (case sessionStore w (requestId request) of
           None \<Rightarrow> None
         | Some session \<Rightarrow>
             (case responseText session of
                None \<Rightarrow> None
              | Some stored \<Rightarrow>
                  if status session = Complete \<and> stored \<noteq> [] then
                    Some (TextResult
                      \<lparr>resp_text = stored, toolCalls = None, totalTokens = None\<rparr>
                      (nullish (session_selectedModelId session) ''unknown'')
                      (buildMetadata (session_attempts session)
                         (nullish (session_selectedModelId session) ''unknown'')
                         (taskType request)))
                  else None))
      else None)"

definition effective_maxWaitMs :: "RouterRequest \<Rightarrow> RoutingPolicy \<Rightarrow> real" where
  \<comment> \<open>\<open>request.maxWaitMs || policy.maxWaitMs\<close>\<close>
  "effective_maxWaitMs request policy = falsy_or (maxWaitMs request) (policy_maxWaitMs policy)"

definition effective_attemptBudget :: "RouterRequest \<Rightarrow> RoutingPolicy \<Rightarrow> int" where
  \<comment> \<open>\<open>request.attemptBudget || policy.maxAttemptsPerCycle\<close>\<close>
  "effective_attemptBudget request policy =
     falsy_or (attemptBudget request) (maxAttemptsPerCycle policy)"

definition effective_threshold :: "RouterRequest \<Rightarrow> RoutingPolicy \<Rightarrow> real" where
  \<comment> \<open>\<open>request.qualityThreshold ?? policy.qualityThreshold\<close>\<close>
  "effective_threshold request policy =
     nullish (qualityThreshold request) (policy_qualityThreshold policy)"

definition route ::
  "nat \<Rightarrow> RouterRequest \<Rightarrow> 'x RouterDeps \<Rightarrow> 'x World \<Rightarrow> 'x RouteOutcome option" where
  \<comment> \<open>The outcome is what \<open>route\<close> throws or returns, the attempt log \<open>attemptsLog\<close> at that
      moment and the world it leaves.\<close>
  "route fuel request deps w =
     (let policy = policyForTask (policies deps) (taskType request);
          maxWait = effective_maxWaitMs request policy;
          budget = effective_attemptBudget request policy;
          threshold = effective_threshold request policy;
          pref = nullish (preferred policy) [];
          start = now w
      in case resumeHit deps request w of
           Some result \<Rightarrow> Some (Inr result, [], w)
         | None \<Rightarrow>
             routeLoop fuel deps request policy maxWait budget threshold pref start [] w)"

section \<open>The HTTP handler (server/handler.ts)\<close>

record Body =
  body_messages :: "Message list option"
  body_task_type :: "string option"
  body_request_id :: "string option"
  body_max_tokens :: "int option"
  body_stream :: bool

record HttpRequest =
  http_method :: string
  pathname :: string
  headers :: "string \<rightharpoonup> string"
  body :: "Body option"

text \<open>
  A request as the handler reads it: the method, the path, the headers by their
  lower-case names, and the JSON body (\<open>None\<close> when it does not parse). Of the body the
  model keeps what the handler takes from it: the messages after \<open>normalizeMessages\<close>
  (for \<open>/v1/responses\<close>, after \<open>normalizeResponsesInput\<close>; \<open>None\<close> for \<open>null\<close>),
  \<open>task_type\<close> when it is a string, \<open>request_id\<close>, \<open>max_tokens\<close> and
  \<open>Boolean(body.stream)\<close>.
\<close>

record HandlerEnv =
  toNumber :: "string \<Rightarrow> real option"
  adminToken :: "string option"
  allowInsecureResume :: bool
  createRequestId :: "string \<Rightarrow> int \<Rightarrow> string"

text \<open>
  What the handler takes from the platform: \<open>Number(value)\<close> on a string (\<open>None\<close> for
  \<open>NaN\<close>), the environment variables \<open>ADMIN_TOKEN\<close> and \<open>ALLOW_INSECURE_RESUME\<close>, and
  the hash behind \<open>createRequestId\<close>.
\<close>

datatype Payload =
    PlainText string
  | MetricsText
  | HealthStatus nat nat
  | Reloaded
  | ErrorPayload string string "int option"
  | ChatCompletion NormalizedResponse "RoutingMetadata option"
  | ResponsesPayload NormalizedResponse "RoutingMetadata option"
  | EventStream TextStream "RoutingMetadata option"

text \<open>
  \<open>ErrorPayload code message retry_after_ms\<close> is the body
  \<open>{error: {code, message, retry_after_ms}}\<close>.
\<close>

record HttpResponse =
  http_status :: nat
  payload :: Payload

definition parseThreshold :: "HandlerEnv \<Rightarrow> string option \<Rightarrow> real option" where
  "parseThreshold env v =
     (case v of
        None \<Rightarrow> None
      | Some s \<Rightarrow>
          if s = [] then None
          else (case toNumber env s of
                  None \<Rightarrow> None
                | Some numeric \<Rightarrow>
                    if 1 < numeric then Some (min (numeric / 5) 1) else Some (max numeric 0)))"

definition parseNumber :: "HandlerEnv \<Rightarrow> string option \<Rightarrow> real option" where
  "parseNumber env v =
     (case v of None \<Rightarrow> None | Some s \<Rightarrow> if s = [] then None else toNumber env s)"

definition parseBoolean :: "string option \<Rightarrow> bool" where
  "parseBoolean v =
     (case v of
        None \<Rightarrow> False
      | Some s \<Rightarrow> if s = [] then False
                  else toLowerCase s \<in> set [''1'', ''true'', ''yes'', ''on''])"

definition taskType_of_name :: "string \<Rightarrow> TaskType option" where
  "taskType_of_name s =
     (if s = ''code'' then Some Code else if s = ''reasoning'' then Some Reasoning
      else if s = ''research'' then Some Research else if s = ''rewrite'' then Some Rewrite
      else if s = ''default'' then Some Default else None)"

definition normalizeTaskType :: "string option \<Rightarrow> string option \<Rightarrow> string \<Rightarrow> TaskType" where
  "normalizeTaskType header bodyTaskType txt =
     (case (case header of None \<Rightarrow> None | Some h \<Rightarrow> taskType_of_name (toLowerCase h)) of
        Some tt \<Rightarrow> tt
      | None \<Rightarrow>
          (case (case bodyTaskType of None \<Rightarrow> None | Some b \<Rightarrow> taskType_of_name (toLowerCase b)) of
             Some tt \<Rightarrow> tt
           | None \<Rightarrow> inferTaskType txt))"

definition isAdminAuthorized :: "HandlerEnv \<Rightarrow> HttpRequest \<Rightarrow> bool" where
  "isAdminAuthorized env req =
     (case adminToken env of
        None \<Rightarrow> False
      | Some token \<Rightarrow> if token = [] then False
                      else headers req ''x-router-admin-token'' = Some token)"

definition isResumeAuthorized :: "HandlerEnv \<Rightarrow> HttpRequest \<Rightarrow> bool" where
  "isResumeAuthorized env req = (if allowInsecureResume env then True else isAdminAuthorized env req)"

definition buildRouterRequest ::
  "HandlerEnv \<Rightarrow> HttpRequest \<Rightarrow> Body \<Rightarrow> Message list \<Rightarrow> int \<Rightarrow> RouterRequest" where
  \<comment> \<open>The \<open>routerRequest\<close> the handler builds from the headers and the body; the last
      argument is the clock reading that \<open>createRequestId\<close> hashes.\<close>
  "buildRouterRequest env req b msgs nowMs =
     (let combinedText = join [CHR 0x0A] (map content msgs);
          tt = normalizeTaskType (headers req ''x-router-task-type'') (body_task_type b) combinedText;
          threshold = parseThreshold env (headers req ''x-router-quality-threshold'');
          maxWait = parseNumber env (headers req ''x-router-max-wait-ms'');
          degrade = parseBoolean (headers req ''x-router-allow-degrade'');
          resuming = parseBoolean (headers req ''x-router-resume'');
          rid = nullish (headers req ''x-router-request-id'')
                  (nullish (body_request_id b) (createRequestId env combinedText nowMs))
      in \<lparr>messages = msgs,
          taskType = tt,
          qualityThreshold = Some (nullish threshold 0),
          maxWaitMs = nullish maxWait 0,
          attemptBudget = 0,
          requestId = rid,
          maxTokens = body_max_tokens b,
          stream = body_stream b,
          allowDegrade = degrade,
          resume = resuming\<rparr>)"

definition respond_error :: "RouteError \<Rightarrow> HttpResponse" where
  \<comment> \<open>The \<open>catch\<close> block around the call of \<open>route\<close>.\<close>
  "respond_error e =
     (case e of
        NoSuitableModelError retryAfterMs \<Rightarrow>
          \<lparr>http_status = 503,
           payload = ErrorPayload ''no_suitable_model_available''
             ''No suitable model available before timeout'' (Some retryAfterMs)\<rparr>
      | UnexpectedError msg \<Rightarrow>
          \<lparr>http_status = 500,
           payload = ErrorPayload ''router_error'' ''Router failed to process request'' None\<rparr>)"

definition respond_result :: "HttpRequest \<Rightarrow> RouteResult \<Rightarrow> HttpResponse" where
  "respond_result req result =
     (let includeDebug =
            (case headers req ''x-router-debug'' of
               None \<Rightarrow> False | Some d \<Rightarrow> toLowerCase d = ''true'')
      in case result of
           StreamResult textStream modelId metadata \<Rightarrow>
             \<lparr>http_status = 200,
              payload = EventStream textStream (if includeDebug then Some metadata else None)\<rparr>
         | TextResult response modelId metadata \<Rightarrow>
             \<lparr>http_status = 200,
              payload =
                (if pathname req = ''/v1/responses''
                 then ResponsesPayload response (if includeDebug then Some metadata else None)
                 else ChatCompletion response (if includeDebug then Some metadata else None))\<rparr>)"

definition handler ::
  "HandlerEnv \<Rightarrow> 'x RouterDeps \<Rightarrow> nat \<Rightarrow> HttpRequest \<Rightarrow> 'x World \<Rightarrow> (HttpResponse \<times> 'x World) option" where
  \<comment> \<open>The function \<open>createHandler\<close> returns. \<open>reloadConfig\<close> belongs to the caller and is
      not modelled; the second argument after the dependencies bounds the cycles of
      \<open>route\<close>.\<close>
  "handler env deps fuel req w =
     (if http_method req = ''GET'' \<and> pathname req = ''/metrics'' then
        Some (\<lparr>http_status = 200, payload = MetricsText\<rparr>, w)
      else if http_method req = ''GET'' \<and> pathname req = ''/health'' then
        Some (\<lparr>http_status = 200,
               payload = HealthStatus (length (models deps)) (length (filter enabled (models deps)))\<rparr>, w)
      else if http_method req = ''POST'' \<and> pathname req = ''/admin/reload'' then
        (if \<not> isAdminAuthorized env req
         then Some (\<lparr>http_status = 401,
                      payload = ErrorPayload ''unauthorized'' ''Admin token required'' None\<rparr>, w)
         else Some (\<lparr>http_status = 200, payload = Reloaded\<rparr>, w))
      else if http_method req \<noteq> ''POST'' \<or>
              (pathname req \<noteq> ''/v1/chat/completions'' \<and> pathname req \<noteq> ''/v1/responses'') then
        Some (\<lparr>http_status = 404, payload = PlainText ''Not Found''\<rparr>, w)
      else
        (case body req of
           None \<Rightarrow> Some (\<lparr>http_status = 400, payload = PlainText ''Invalid JSON''\<rparr>, w)
         | Some b \<Rightarrow>
             let isResponsesRequest = (pathname req = ''/v1/responses'');
                 msgs = nullish (body_messages b) []
             in if msgs = [] then
                  Some (\<lparr>http_status = 400,
                         payload = ErrorPayload ''invalid_request''
                           (if isResponsesRequest then ''input must be a string or array''
                            else ''messages must be an array'') None\<rparr>, w)
                else
                  let routerRequest = buildRouterRequest env req b msgs (now w)
                  in if resume routerRequest \<and> \<not> isResumeAuthorized env req then
                       Some (\<lparr>http_status = 401,
                              payload = ErrorPayload ''unauthorized''
                                ''Resume requires admin token'' None\<rparr>, w)
                     else if pathname req = ''/v1/responses'' \<and> stream routerRequest then
                       Some (\<lparr>http_status = 400,
                              payload = ErrorPayload ''unsupported''
                                ''Streaming is not supported for /v1/responses'' None\<rparr>, w)
                     else
                       (case route fuel routerRequest deps w of
                          None \<Rightarrow> None
                        | Some (Inl e, attemptsLog, w') \<Rightarrow> Some (respond_error e, w')
                        | Some (Inr result, attemptsLog, w') \<Rightarrow>
                            Some (respond_result req result, w'))))"

section \<open>Specification-side definitions\<close>

text \<open>
  The definitions of this section are not translations of source functions: they state,
  in the words of the specification, what the theorems below compare the model with.
\<close>

subsection \<open>Provider invocations\<close>

fun is_candidate_call :: "AdapterCall \<Rightarrow> bool" where
  "is_candidate_call (GenerateCall FromRoute m) = True"
| "is_candidate_call (GenerateCall FromJudge m) = False"
| "is_candidate_call (StreamCall m) = True"

definition candidate_calls :: "AdapterCall list \<Rightarrow> nat" where
  "candidate_calls cs = length (filter is_candidate_call cs)"

text \<open>
  A candidate call is an invocation of \<open>adapter.generate\<close> or \<open>adapter.stream\<close> that
  \<open>route\<close> makes for a candidate; the judge hook's own \<open>generate\<close> call is not one.
\<close>

definition fits :: "RouterRequest \<Rightarrow> CandidateModel \<Rightarrow> bool" where
  "fits request model =
     (fitMessagesToContext (messages request) (model_context model)
        (nullish (maxTokens request) 0) \<noteq> None)"

subsection \<open>Rate-limit cooldown\<close>

definition spec_strikes :: "ModelHealth \<Rightarrow> int \<Rightarrow> nat" where
  "spec_strikes health nowMs =
     (if nowMs - lastRateLimitAt health \<le> 60000 then rateLimitStrikes health + 1 else 1)"

definition spec_cooldown :: "int option \<Rightarrow> nat \<Rightarrow> int" where
  "spec_cooldown retryAfterMs strikes =
     (case retryAfterMs of Some r \<Rightarrow> r | None \<Rightarrow> min (2000 * 2 ^ (strikes - 1)) 60000)"

subsection \<open>Context fitting\<close>

definition total_chars :: "Message list \<Rightarrow> int" where
  \<comment> \<open>The characters of the messages, and one separator for each adjacent pair.\<close>
  "total_chars msgs = (\<Sum>msg\<leftarrow>msgs. int (length (content msg))) + int (length msgs - 1)"

definition spec_estimate :: "Message list \<Rightarrow> int \<Rightarrow> int" where
  "spec_estimate msgs maxOutput = \<lceil>of_int (total_chars msgs) / (4 :: real)\<rceil> + maxOutput"

fun drop_first_non_system :: "Message list \<Rightarrow> Message list" where
  "drop_first_non_system [] = []"
| "drop_first_non_system (msg # rest) =
     (if role msg \<noteq> System then rest else msg # drop_first_non_system rest)"

lemma length_drop_first_non_system:
  "\<not> list_all (\<lambda>msg. role msg = System) msgs \<Longrightarrow>
   length (drop_first_non_system msgs) < length msgs"
  by (induction msgs) auto

function spec_fit :: "Message list \<Rightarrow> nat \<Rightarrow> int \<Rightarrow> int \<Rightarrow> FitResult option" where
  "spec_fit msgs dropped contextWindow maxOutput =
     (if spec_estimate msgs maxOutput \<le> contextWindow
      then Some \<lparr>fit_messages = msgs, trimmedCount = dropped\<rparr>
      else if list_all (\<lambda>msg. role msg = System) msgs then None
      else spec_fit (drop_first_non_system msgs) (dropped + 1) contextWindow maxOutput)"
  by pat_completeness auto

termination
  by (relation "measure (\<lambda>(msgs, _). length msgs)")
     (auto simp: length_drop_first_non_system)

declare spec_fit.simps [simp del]

text \<open>
  \<open>spec_fit\<close> follows the specification: estimate the tokens of the current list
  anew, stop when they fit, give up when only system messages are left, and drop the
  first non-system message otherwise. The second argument counts the messages dropped.
\<close>

subsection \<open>Task-type inference\<close>

definition occurs :: "string \<Rightarrow> string \<Rightarrow> bool" where
  "occurs kw s = (\<exists>pre post. s = pre @ kw @ post)"

definition occurs_as_word :: "string \<Rightarrow> string \<Rightarrow> bool" where
  "occurs_as_word kw s =
     (\<exists>pre post. s = pre @ kw @ post \<and>
        (pre = [] \<or> \<not> is_word_char (last pre)) \<and>
        (post = [] \<or> \<not> is_word_char (hd post)))"

definition research_keywords :: "string list" where
  "research_keywords = [''latest'', ''source'', ''sources'', ''compare'', ''research'', ''cite'']"

definition amended_inferTaskType :: "string \<Rightarrow> TaskType" where
  "amended_inferTaskType txt =
     (let s = toLowerCase txt
      in if occurs fence s \<or> (\<exists>kw \<in> set code_keywords. occurs_as_word kw s) then Code
         else if \<exists>kw \<in> set rewrite_keywords. occurs_as_word kw s then Rewrite
         else if \<exists>kw \<in> set research_keywords. occurs_as_word kw s then Research
         else Reasoning)"

definition wordlike :: "string \<Rightarrow> bool" where
  "wordlike kw = (kw \<noteq> [] \<and> is_word_char (hd kw) \<and> is_word_char (last kw))"

definition claimed_code_keywords :: "string list" where
  "claimed_code_keywords = [''stack trace'', ''error'', ''exception'', ''refactor'', ''implement'',
     ''bug'', ''typescript'', ''javascript'']"

definition claimed_inferTaskType :: "string \<Rightarrow> TaskType" where
  \<comment> \<open>The classifier with exactly the keyword sets of the specification; a keyword is
      present when it occurs in the lower-cased text.\<close>
  "claimed_inferTaskType txt =
     (let s = toLowerCase txt
      in if str_includes s fence \<or> list_ex (str_includes s) claimed_code_keywords then Code
         else if list_ex (str_includes s) rewrite_keywords then Rewrite
         else if list_ex (str_includes s) [''latest'', ''source'', ''compare'', ''research'', ''cite'']
         then Research
         else Reasoning)"

text \<open>
  \<open>occurs_as_word kw s\<close>: the keyword stands in \<open>s\<close> as a whole word, with no letter,
  digit or underscore before or after it. \<open>amended_inferTaskType\<close> is the classifier
  with the keyword sets of the code (\<open>bun\<close> among the code keywords; \<open>sources?\<close> read as
  \<open>source\<close> and \<open>sources\<close>) and whole-word matching.
\<close>

subsection \<open>Heuristic score\<close>


section \<open>Scenarios\<close>

text \<open>
  Concrete inputs after the repository's tests: one model \<open>model:a\<close>, a default
  policy with a poll interval of 5 ms and a wait of 1 ms, a provider whose every call
  takes 1 ms and gives the same answer, and empty stores at time 0.
\<close>

definition scenario_model :: "string \<Rightarrow> int \<Rightarrow> CandidateModel" where
  "scenario_model name ctx =
     \<lparr>model_id = name, provider = ''test'', model_context = ctx,
      capabilities = (\<lambda>tt. Some 5), costWeight = Some 1, enabled = True\<rparr>"

definition scenario_policy :: RoutingPolicy where
  "scenario_policy =
     \<lparr>preferred = Some [''model:a''], minCapability = 1, policy_qualityThreshold = 0.9,
      maxAttemptsPerCycle = 1, pollIntervalMs = 5, policy_maxWaitMs = 1, weights = None\<rparr>"

definition scenario_policies :: PoliciesConfig where
  "scenario_policies =
     \<lparr>routing = (\<lambda>tt. None), routing_default = scenario_policy, streaming_chunkSize = None,
      streaming_chunkDelayMs = None, codeEvaluation = None, evaluationJudge = None\<rparr>"

definition scenario_deps :: "int \<Rightarrow> (Thrown + NormalizedResponse) \<Rightarrow> unit RouterDeps" where
  "scenario_deps ctx answer =
     \<lparr>models = [scenario_model ''model:a'' ctx], policies = scenario_policies,
      adapter_generate = (\<lambda>model request x. (answer, 1, x)),
      adapter_stream = (\<lambda>model request x. (Inr [''ok''], 1, x)),
      run_command = (\<lambda>cmd x. (True, 0, x)), has_sessionStore = True\<rparr>"

definition scenario_request :: RouterRequest where
  "scenario_request =
     \<lparr>messages = [\<lparr>role = User, content = ''Explain briefly.''\<rparr>], taskType = Reasoning,
      qualityThreshold = Some 0.9, maxWaitMs = 0, attemptBudget = 0, requestId = ''req_test'',
      maxTokens = Some 8, stream = False, allowDegrade = False, resume = False\<rparr>"

definition scenario_world :: "unit World" where
  "scenario_world =
     \<lparr>now = 0, healthStore = Map.empty, budgetStore = Map.empty, sessionStore = Map.empty,
      ext = (), calls = []\<rparr>"

definition reply :: "string \<Rightarrow> Thrown + NormalizedResponse" where
  "reply txt = Inr \<lparr>resp_text = txt, toolCalls = None, totalTokens = None\<rparr>"

definition scenario_env :: HandlerEnv where
  "scenario_env =
     \<lparr>toNumber = (\<lambda>s. if s = ''0.5'' then Some 0.5 else None), adminToken = None,
      allowInsecureResume = False, createRequestId = (\<lambda>seed nowMs. ''req_generated'')\<rparr>"

definition scenario_http :: "(string \<rightharpoonup> string) \<Rightarrow> HttpRequest" where
  "scenario_http hdrs =
     \<lparr>http_method = ''POST'', pathname = ''/v1/chat/completions'', headers = hdrs,
      body = Some \<lparr>body_messages = Some [\<lparr>role = User, content = ''Hello there.''\<rparr>],
                   body_task_type = None, body_request_id = None, body_max_tokens = None,
                   body_stream = False\<rparr>\<rparr>"

definition trim_messages :: "Message list" where
  "trim_messages =
     [\<lparr>role = System, content = ''system''\<rparr>,
      \<lparr>role = User, content = concat (replicate 12 ''first message should be dropped '')\<rparr>,
      \<lparr>role = User, content = concat (replicate 12 ''second message should be dropped '')\<rparr>,
      \<lparr>role = User, content = ''keep me''\<rparr>]"

definition empty_text_session :: SessionRecord where
  "empty_text_session =
     \<lparr>session_requestId = ''req_test'', session_taskType = Reasoning, status = Complete,
      responseText = Some [], session_selectedModelId = Some ''model:a'',
      session_attempts =
        [\<lparr>attempt_modelId = ''model:a'', outcome = Success, attempt_score = Some 0\<rparr>],
      createdAt = 1, updatedAt = 1\<rparr>"

definition stored_session :: "SessionRecord \<Rightarrow> unit World" where
  "stored_session session = scenario_world\<lparr>sessionStore := [''req_test'' \<mapsto> session]\<rparr>"

definition judge_deps :: "unit RouterDeps" where
  "judge_deps =
     (scenario_deps 8000 (reply ''0.95''))
       \<lparr>models := [scenario_model ''model:a'' 8000, scenario_model ''model:judge'' 8000],
        policies := scenario_policies\<lparr>evaluationJudge :=
          Some \<lparr>judge_enabled = True, judge_modelId = ''model:judge'', prompt = None,
                minScore = Some 0\<rparr>\<rparr>\<rparr>"

section \<open>Lemmas about the model\<close>

subsection \<open>What the store operations leave alone\<close>

lemma markRateLimited_frame [simp]:
  "now (markRateLimited m c s l w) = now w"
  "calls (markRateLimited m c s l w) = calls w"
  "ext (markRateLimited m c s l w) = ext w"
  "budgetStore (markRateLimited m c s l w) = budgetStore w"
  "sessionStore (markRateLimited m c s l w) = sessionStore w"
  by (simp_all add: markRateLimited_def Let_def)

lemma markDegraded_frame [simp]:
  "now (markDegraded m d w) = now w"
  "calls (markDegraded m d w) = calls w"
  "ext (markDegraded m d w) = ext w"
  "budgetStore (markDegraded m d w) = budgetStore w"
  "sessionStore (markDegraded m d w) = sessionStore w"
  by (simp_all add: markDegraded_def Let_def)

lemma health_recordResult_frame [simp]:
  "now (health_recordResult m s l w) = now w"
  "calls (health_recordResult m s l w) = calls w"
  "ext (health_recordResult m s l w) = ext w"
  "budgetStore (health_recordResult m s l w) = budgetStore w"
  "sessionStore (health_recordResult m s l w) = sessionStore w"
  by (simp_all add: health_recordResult_def Let_def)

lemma budget_record_frame [simp]:
  "now (budget_record p t w) = now w"
  "calls (budget_record p t w) = calls w"
  "ext (budget_record p t w) = ext w"
  "healthStore (budget_record p t w) = healthStore w"
  "sessionStore (budget_record p t w) = sessionStore w"
  by (simp_all add: budget_record_def Let_def)

lemma session_recordAttempt_frame [simp]:
  "now (session_recordAttempt r t a w) = now w"
  "calls (session_recordAttempt r t a w) = calls w"
  "ext (session_recordAttempt r t a w) = ext w"
  "healthStore (session_recordAttempt r t a w) = healthStore w"
  "budgetStore (session_recordAttempt r t a w) = budgetStore w"
  by (simp_all add: session_recordAttempt_def Let_def)

lemma session_recordResult_frame [simp]:
  "now (session_recordResult r t m x w) = now w"
  "calls (session_recordResult r t m x w) = calls w"
  "ext (session_recordResult r t m x w) = ext w"
  "healthStore (session_recordResult r t m x w) = healthStore w"
  "budgetStore (session_recordResult r t m x w) = budgetStore w"
  by (simp_all add: session_recordResult_def Let_def)

lemma session_attempt_frame [simp]:
  "now (session_attempt deps rq a w) = now w"
  "calls (session_attempt deps rq a w) = calls w"
  "ext (session_attempt deps rq a w) = ext w"
  "healthStore (session_attempt deps rq a w) = healthStore w"
  "budgetStore (session_attempt deps rq a w) = budgetStore w"
  by (simp_all add: session_attempt_def)

lemma health_get_cong: "healthStore w' = healthStore w \<Longrightarrow> health_get w' m = health_get w m"
  by (simp add: health_get_def)

lemma finalizeResult_frame:
  assumes "finalizeResult deps request model response attemptsLog w = (result, w')"
  shows "now w' = now w" "calls w' = calls w" "ext w' = ext w" "healthStore w' = healthStore w"
  using assms by (auto simp: finalizeResult_def Let_def split: if_splits)

lemma call_generate_frame:
  assumes "call_generate deps site model request w = (res, w')"
  shows "now w \<le> now w'" "calls w' = calls w @ [GenerateCall site (model_id model)]"
    "healthStore w' = healthStore w" "budgetStore w' = budgetStore w" "sessionStore w' = sessionStore w"
  using assms by (auto simp: call_generate_def split: prod.splits)

lemma call_stream_frame:
  assumes "call_stream deps model request w = (res, w')"
  shows "now w \<le> now w'" "calls w' = calls w @ [StreamCall (model_id model)]"
    "healthStore w' = healthStore w" "budgetStore w' = budgetStore w" "sessionStore w' = sessionStore w"
  using assms by (auto simp: call_stream_def split: prod.splits)

lemma runCodeEvaluation_frame:
  assumes "runCodeEvaluation deps config w = (passed, w')"
  shows "now w \<le> now w'" "calls w' = calls w"
    "healthStore w' = healthStore w" "budgetStore w' = budgetStore w" "sessionStore w' = sessionStore w"
  using assms by (auto simp: runCodeEvaluation_def Let_def split: prod.splits if_splits)

lemma evaluate_frame:
  assumes "evaluate deps txt request cfg tools w = (score, w')"
  shows "now w \<le> now w'" "calls w' = calls w"
    "healthStore w' = healthStore w" "budgetStore w' = budgetStore w" "sessionStore w' = sessionStore w"
    "0 \<le> score" "score \<le> 1"
  using assms
  by (auto simp: evaluate_def Let_def split: prod.splits if_splits option.splits
      dest: runCodeEvaluation_frame)

lemma sleep_frame [simp]:
  "now (sleep ms w) = now w + max 0 ms" "calls (sleep ms w) = calls w"
  by (simp_all add: sleep_def)

subsection \<open>One attempt\<close>

lemma succeed_effect:
  assumes "succeed deps request model response latencyMs healthy score attemptsLog w = (step, attemptsLog', w')"
  shows "\<exists>result. step = Returned result"
    "attemptsLog' = attemptsLog @ [\<lparr>attempt_modelId = model_id model, outcome = Success, attempt_score = Some score\<rparr>]"
    "now w' = now w" "calls w' = calls w"
  using assms
  by (auto simp: succeed_def Let_def split: prod.splits dest: finalizeResult_frame)

lemma reject_effect:
  assumes "reject deps request model latencyMs score attemptsLog w = (step, attemptsLog', w')"
  shows "step = Continue"
    "attemptsLog' = attemptsLog @ [\<lparr>attempt_modelId = model_id model, outcome = EvalFail, attempt_score = Some score\<rparr>]"
    "now w' = now w" "calls w' = calls w"
  using assms by (auto simp: reject_def Let_def)

lemma failed_attempt_effect:
  assumes "failed_attempt deps request model oc latencyMs attemptsLog w = (attemptsLog', w')"
  shows "attemptsLog' = attemptsLog @ [\<lparr>attempt_modelId = model_id model, outcome = oc, attempt_score = None\<rparr>]"
    "now w' = now w" "calls w' = calls w"
  using assms by (auto simp: failed_attempt_def Let_def)

lemma handleThrown_effect:
  assumes "handleThrown deps request model attemptStart thrown attemptsLog w = (attemptsLog', w')"
  shows "\<exists>entry. attemptsLog' = attemptsLog @ [entry] \<and> outcome entry \<noteq> Success"
    "now w' = now w" "calls w' = calls w"
  using assms
  by (auto simp: handleThrown_def failed_attempt_def Let_def split: Thrown.splits if_splits)

lemma maybeJudgeScore_effect:
  assumes "maybeJudgeScore deps txt request model score threshold w = (judged, w')"
  shows "now w \<le> now w'" "candidate_calls (calls w') = candidate_calls (calls w)"
  using assms
  by (auto simp: maybeJudgeScore_def Let_def candidate_calls_def call_generate_def
      split: option.splits if_splits prod.splits sum.splits)

lemma attemptModel_effect:
  assumes am: "attemptModel deps request threshold model attemptsLog w = (step, attemptsLog', w')"
  shows "now w \<le> now w' \<and>
         (\<exists>entry. attemptsLog' = attemptsLog @ [entry] \<and>
                  ((\<exists>result. step = Returned result) \<longleftrightarrow> outcome entry = Success)) \<and>
         candidate_calls (calls w') =
           candidate_calls (calls w) +
           (case fitMessagesToContext (messages request) (model_context model)
                   (nullish (maxTokens request) 0) of None \<Rightarrow> 0 | Some fitted \<Rightarrow> 1)"
proof (cases "fitMessagesToContext (messages request) (model_context model)
                (nullish (maxTokens request) 0)")
  case None
  with am show ?thesis by (auto simp: attemptModel_def Let_def)
next
  case (Some fitted)
  let ?rq = "request\<lparr>messages := fit_messages fitted\<rparr>"
  show ?thesis
  proof (cases "stream request \<and> allowDegrade request")
    case True
    obtain res w1 where cs: "call_stream deps model ?rq w = (res, w1)"
      by (cases "call_stream deps model ?rq w")
    note f = call_stream_frame[OF cs]
    show ?thesis
    proof (cases res)
      case (Inl thrown)
      obtain l2 w2 where ht: "handleThrown deps request model (now w) thrown attemptsLog w1 = (l2, w2)"
        by (cases "handleThrown deps request model (now w) thrown attemptsLog w1")
      from am Some True cs Inl ht have r: "step = Continue" "attemptsLog' = l2" "w' = w2"
        by (auto simp: attemptModel_def Let_def)
      from handleThrown_effect[OF ht] f r Some show ?thesis
        by (auto simp: candidate_calls_def)
    next
      case (Inr providerStream)
      from am Some True cs Inr f show ?thesis
        by (auto simp: attemptModel_def Let_def candidate_calls_def)
    qed
  next
    case False
    then have ns: "(stream request \<and> allowDegrade request) = False" by simp
    obtain res w1 where cg: "call_generate deps FromRoute model ?rq w = (res, w1)"
      by (cases "call_generate deps FromRoute model ?rq w")
    note f = call_generate_frame[OF cg]
    have c1: "candidate_calls (calls w1) = candidate_calls (calls w) + 1"
      using f(2) by (simp add: candidate_calls_def)
    show ?thesis
    proof (cases res)
      case (Inl thrown)
      obtain l2 w2 where ht: "handleThrown deps request model (now w) thrown attemptsLog w1 = (l2, w2)"
        by (cases "handleThrown deps request model (now w) thrown attemptsLog w1")
      from am Some ns cg Inl ht have r: "step = Continue" "attemptsLog' = l2" "w' = w2"
        by (auto simp: attemptModel_def Let_def)
      from handleThrown_effect[OF ht] f(1) c1 r Some show ?thesis
        by auto
    next
      case (Inr response)
      let ?tools = "case toolCalls response of None \<Rightarrow> False | Some n \<Rightarrow> 0 < n"
      obtain score w2 where ev: "evaluate deps (resp_text response) request
          (codeEvaluation (policies deps)) ?tools w1 = (score, w2)"
        by (cases "evaluate deps (resp_text response) request
          (codeEvaluation (policies deps)) ?tools w1")
      note e = evaluate_frame[OF ev]
      have c2: "candidate_calls (calls w2) = candidate_calls (calls w) + 1" "now w \<le> now w2"
        using c1 e(1,2) f(1) by auto
      obtain judged w3 where mj: "maybeJudgeScore deps (resp_text response) request model
          score threshold w2 = (judged, w3)"
        by (cases "maybeJudgeScore deps (resp_text response) request model score threshold w2")
      note j = maybeJudgeScore_effect[OF mj]
      have c3: "candidate_calls (calls w3) = candidate_calls (calls w) + 1" "now w \<le> now w3"
        using c2 j by auto
      from am Some ns cg Inr ev mj
      consider
        (acc2) healthy sc where "succeed deps request model response (now w1 - now w) healthy sc attemptsLog w2
             = (step, attemptsLog', w')"
      | (acc3) sc where "succeed deps request model response (now w1 - now w) True sc attemptsLog w3
             = (step, attemptsLog', w')"
      | (rej) "reject deps request model (now w1 - now w) score attemptsLog w3 = (step, attemptsLog', w')"
        by (auto simp: attemptModel_def Let_def split: if_splits option.splits)
      then show ?thesis
      proof cases
        case acc2
        from succeed_effect[OF acc2] c2 Some show ?thesis by auto
      next
        case acc3
        from succeed_effect[OF acc3] c3 Some show ?thesis by auto
      next
        case rej
        from reject_effect[OF rej] c3 Some show ?thesis by auto
      qed
    qed
  qed
qed

lemma threshold_zero_accepts:
  assumes ns: "\<not> (stream request \<and> allowDegrade request)"
    and fit: "fitMessagesToContext (messages request) (model_context model)
                (nullish (maxTokens request) 0) = Some fitted"
    and gen: "call_generate deps FromRoute model (request\<lparr>messages := fit_messages fitted\<rparr>) w
                = (Inr response, w1)"
  shows "\<exists>result attemptsLog' w'.
           attemptModel deps request 0 model attemptsLog w = (Returned result, attemptsLog', w') \<and>
           attemptsLog' \<noteq> [] \<and> outcome (last attemptsLog') = Success"
proof -
  let ?tools = "case toolCalls response of None \<Rightarrow> False | Some n \<Rightarrow> 0 < n"
  obtain score w2 where ev: "evaluate deps (resp_text response) request
      (codeEvaluation (policies deps)) ?tools w1 = (score, w2)"
    by (cases "evaluate deps (resp_text response) request (codeEvaluation (policies deps)) ?tools w1")
  have pos: "0 \<le> score" using evaluate_frame(6)[OF ev] .
  have nsd: "(stream request \<and> allowDegrade request) = False" using ns by simp
  have "attemptModel deps request 0 model attemptsLog w =
          succeed deps request model response (now w1 - now w) True score attemptsLog w2"
    using fit gen ev pos by (simp add: attemptModel_def Let_def nsd)
  moreover obtain step attemptsLog' w' where
    s: "succeed deps request model response (now w1 - now w) True score attemptsLog w2
          = (step, attemptsLog', w')"
    by (cases "succeed deps request model response (now w1 - now w) True score attemptsLog w2")
  moreover from succeed_effect[OF s] obtain result where
    "step = Returned result" "attemptsLog' \<noteq> []" "outcome (last attemptsLog') = Success"
    by auto
  ultimately show ?thesis by auto
qed

subsection \<open>The loops of route\<close>

lemma attemptLoop_effect:
  assumes "attemptLoop deps request threshold budget n ms attemptsLog w = (step, attemptsLog', w')"
  shows "now w \<le> now w' \<and>
         length attemptsLog \<le> length attemptsLog' \<and>
         ((\<exists>result. step = Returned result) \<longrightarrow>
            attemptsLog' \<noteq> [] \<and> outcome (last attemptsLog') = Success) \<and>
         candidate_calls (calls w') + length attemptsLog \<le>
           candidate_calls (calls w) + length attemptsLog' \<and>
         (list_all (fits request) ms \<longrightarrow>
            candidate_calls (calls w') + length attemptsLog =
              candidate_calls (calls w) + length attemptsLog')"
  using assms
proof (induction ms arbitrary: n attemptsLog w)
  case Nil
  then show ?case by simp
next
  case (Cons model rest)
  show ?case
  proof (cases "budget \<le> int n")
    case True
    with Cons.prems show ?thesis by simp
  next
    case False
    obtain s1 l1 w1 where am: "attemptModel deps request threshold model attemptsLog w = (s1, l1, w1)"
      by (cases "attemptModel deps request threshold model attemptsLog w")
    from attemptModel_effect[OF am] obtain entry where
      e: "now w \<le> now w1" "l1 = attemptsLog @ [entry]"
         "(\<exists>result. s1 = Returned result) \<longleftrightarrow> outcome entry = Success"
         "candidate_calls (calls w1) = candidate_calls (calls w) +
            (case fitMessagesToContext (messages request) (model_context model)
               (nullish (maxTokens request) 0) of None \<Rightarrow> 0 | Some fitted \<Rightarrow> 1)"
      by blast
    show ?thesis
    proof (cases s1)
      case (Returned result)
      with Cons.prems False am have "step = Returned result" "attemptsLog' = l1" "w' = w1"
        by auto
      with e Returned show ?thesis
        by (auto simp: fits_def split: option.splits)
    next
      case Continue
      with Cons.prems False am
      have "attemptLoop deps request threshold budget (Suc n) rest l1 w1 = (step, attemptsLog', w')"
        by auto
      from Cons.IH[OF this] e show ?thesis
        by (auto simp: fits_def split: option.splits)
    qed
  qed
qed

lemma set_insert_sorted: "set (insert_sorted cmp x ys) = insert x (set ys)"
  by (induction ys) auto

lemma set_sort_with: "set (sort_with cmp xs) = set xs"
  by (induction xs) (auto simp: sort_with_def set_insert_sorted)

lemma orderedCandidates_subset:
  "set (orderedCandidates deps request policy pref w) \<subseteq> set (models deps)"
  by (auto simp: orderedCandidates_def Let_def set_sort_with List.map_filter_def candidate_def
      split: if_splits option.splits)

lemma routeLoop_effect:
  assumes "routeLoop fuel deps request policy maxWait budget threshold pref start attemptsLog w
             = Some (out, attemptsLog', w')"
  shows "now w \<le> now w' \<and>
         (\<forall>e. out = Inl e \<longrightarrow> e = NoSuitableModelError 10000 \<and> maxWait \<le> of_int (now w' - start)) \<and>
         ((\<exists>result. out = Inr result) \<longrightarrow>
            attemptsLog' \<noteq> [] \<and> outcome (last attemptsLog') = Success) \<and>
         candidate_calls (calls w') + length attemptsLog \<le>
           candidate_calls (calls w) + length attemptsLog' \<and>
         (list_all (fits request) (models deps) \<longrightarrow>
            candidate_calls (calls w') + length attemptsLog =
              candidate_calls (calls w) + length attemptsLog')"
  using assms
proof (induction fuel arbitrary: attemptsLog w)
  case 0
  then show ?case by simp
next
  case (Suc fuel)
  show ?case
  proof (cases "of_int (now w - start) < maxWait")
    case False
    with Suc.prems show ?thesis by auto
  next
    case True
    let ?ms = "orderedCandidates deps request policy pref w"
    obtain s1 l1 w1 where al: "attemptLoop deps request threshold budget 0 ?ms attemptsLog w = (s1, l1, w1)"
      by (cases "attemptLoop deps request threshold budget 0 ?ms attemptsLog w")
    have fitsub: "list_all (fits request) (models deps) \<Longrightarrow> list_all (fits request) ?ms"
      using orderedCandidates_subset[of deps request policy pref w]
      by (auto simp: list_all_iff)
    note e = attemptLoop_effect[OF al]
    show ?thesis
    proof (cases s1)
      case (Returned result)
      with Suc.prems True al have "out = Inr result" "attemptsLog' = l1" "w' = w1"
        by auto
      with e Returned fitsub show ?thesis by auto
    next
      case Continue
      show ?thesis
      proof (cases "maxWait \<le> of_int (now w1 - start)")
        case True
        with Suc.prems \<open>of_int (now w - start) < maxWait\<close> al Continue
        have "out = Inl (NoSuitableModelError 10000)" "attemptsLog' = l1" "w' = w1"
          by auto
        with e True fitsub show ?thesis by auto
      next
        case False
        with Suc.prems True al Continue
        have "routeLoop fuel deps request policy maxWait budget threshold pref start l1
                (sleep (pollIntervalMs policy) w1) = Some (out, attemptsLog', w')"
          by auto
        from Suc.IH[OF this] e fitsub show ?thesis by auto
      qed
    qed
  qed
qed



lemma route_effect:
  assumes "route fuel request deps w = Some (out, attemptsLog, w')"
  shows "now w \<le> now w' \<and>
         (\<forall>e. out = Inl e \<longrightarrow> e = NoSuitableModelError 10000 \<and>
            effective_maxWaitMs request (policyForTask (policies deps) (taskType request))
              \<le> of_int (now w' - now w)) \<and>
         (\<forall>result. out = Inr result \<longrightarrow>
            resumeHit deps request w = Some result \<or>
            (attemptsLog \<noteq> [] \<and> outcome (last attemptsLog) = Success)) \<and>
         candidate_calls (calls w') \<le> candidate_calls (calls w) + length attemptsLog \<and>
         (list_all (fits request) (models deps) \<longrightarrow>
            candidate_calls (calls w') = candidate_calls (calls w) + length attemptsLog)"
proof (cases "resumeHit deps request w")
  case (Some result)
  with assms show ?thesis by (auto simp: route_def Let_def)
next
  case None
  with assms have "routeLoop fuel deps request (policyForTask (policies deps) (taskType request))
      (effective_maxWaitMs request (policyForTask (policies deps) (taskType request)))
      (effective_attemptBudget request (policyForTask (policies deps) (taskType request)))
      (effective_threshold request (policyForTask (policies deps) (taskType request)))
      (nullish (preferred (policyForTask (policies deps) (taskType request))) [])
      (now w) [] w = Some (out, attemptsLog, w')"
    by (simp add: route_def Let_def)
  from routeLoop_effect[OF this] show ?thesis by auto
qed



subsection \<open>The handler\<close>


lemma handler_routes:
  assumes "http_method req = ''POST''"
    and "pathname req = ''/v1/chat/completions'' \<or> pathname req = ''/v1/responses''"
    and "body req = Some b" and "body_messages b = Some msgs" and "msgs \<noteq> []"
    and "resume (buildRouterRequest env req b msgs (now w)) \<longrightarrow> isResumeAuthorized env req"
    and "pathname req = ''/v1/responses'' \<longrightarrow> \<not> stream (buildRouterRequest env req b msgs (now w))"
  shows "handler env deps fuel req w =
           (case route fuel (buildRouterRequest env req b msgs (now w)) deps w of
              None \<Rightarrow> None
            | Some (Inl e, attemptsLog, w') \<Rightarrow> Some (respond_error e, w')
            | Some (Inr result, attemptsLog, w') \<Rightarrow> Some (respond_result req result, w'))"
  using assms by (auto simp: handler_def Let_def nullish_def)

subsection \<open>The context fitter\<close>

lemma findIndex_None_iff:
  "findIndex (\<lambda>msg. role msg \<noteq> System) msgs = None \<longleftrightarrow> list_all (\<lambda>msg. role msg = System) msgs"
  by (induction msgs) auto

lemma findIndex_splice:
  "findIndex (\<lambda>msg. role msg \<noteq> System) msgs = Some i \<Longrightarrow>
   splice1 msgs i = drop_first_non_system msgs"
  by (induction msgs arbitrary: i) (auto simp: splice1_def split: if_splits)

lemma sum_splice:
  "i < length msgs \<Longrightarrow>
   (\<Sum>msg\<leftarrow>splice1 msgs i. int (length (content msg))) =
   (\<Sum>msg\<leftarrow>msgs. int (length (content msg))) - int (length (content (msgs ! i)))"
proof -
  assume "i < length msgs"
  then have "msgs = take i msgs @ msgs ! i # drop (Suc i) msgs"
    by (simp add: id_take_nth_drop)
  then have "(\<Sum>msg\<leftarrow>msgs. int (length (content msg))) =
      (\<Sum>msg\<leftarrow>take i msgs @ msgs ! i # drop (Suc i) msgs. int (length (content msg)))"
    by simp
  then show ?thesis by (simp add: splice1_def)
qed

lemma total_chars_splice:
  assumes "i < length msgs"
  shows "total_chars (splice1 msgs i) =
         (let t = total_chars msgs - int (length (content (msgs ! i)))
          in if 1 \<le> length (splice1 msgs i) then t - 1 else t)"
proof -
  have len: "length (splice1 msgs i) = length msgs - 1"
    using assms by (simp add: splice1_def)
  show ?thesis
    using assms by (auto simp: total_chars_def sum_splice len Let_def)
qed

lemma fit_loop_refines:
  "fit_loop msgs (total_chars msgs) n contextWindow maxOutput = spec_fit msgs n contextWindow maxOutput"
proof (induction msgs n contextWindow maxOutput rule: spec_fit.induct)
  case (1 msgs dropped contextWindow maxOutput)
  show ?case
  proof (cases "spec_estimate msgs maxOutput \<le> contextWindow")
    case True
    then show ?thesis
      by (subst fit_loop.simps, subst spec_fit.simps) (simp add: spec_estimate_def)
  next
    case False
    show ?thesis
    proof (cases "findIndex (\<lambda>msg. role msg \<noteq> System) msgs")
      case None
      with False show ?thesis
        by (subst fit_loop.simps, subst spec_fit.simps)
           (simp add: spec_estimate_def findIndex_None_iff[symmetric])
    next
      case (Some i)
      then have nall: "\<not> list_all (\<lambda>msg. role msg = System) msgs"
        by (simp add: findIndex_None_iff[symmetric])
      have i: "i < length msgs" using Some by (rule findIndex_less)
      have sp: "splice1 msgs i = drop_first_non_system msgs" using Some by (rule findIndex_splice)
      have tc: "(let t = total_chars msgs - int (length (content (msgs ! i)))
                 in if 1 \<le> length (splice1 msgs i) then t - 1 else t) =
                total_chars (drop_first_non_system msgs)"
        using total_chars_splice[OF i] sp by simp
      have "fit_loop msgs (total_chars msgs) dropped contextWindow maxOutput =
            fit_loop (drop_first_non_system msgs) (total_chars (drop_first_non_system msgs))
              (dropped + 1) contextWindow maxOutput"
        using False Some tc sp
        by (subst fit_loop.simps) (simp add: spec_estimate_def Let_def)
      also have "\<dots> = spec_fit (drop_first_non_system msgs) (dropped + 1) contextWindow maxOutput"
        using "1.IH"[OF False nall] .
      also have "\<dots> = spec_fit msgs dropped contextWindow maxOutput"
        using False nall by (subst (2) spec_fit.simps) simp
      finally show ?thesis .
    qed
  qed
qed

lemma fitMessagesToContext_total:
  "fitMessagesToContext msgs contextWindow maxOutput =
   fit_loop msgs (total_chars msgs) 0 contextWindow maxOutput"
proof -
  have "(if 1 < length msgs then (\<Sum>msg\<leftarrow>msgs. int (length (content msg))) + (int (length msgs) - 1)
         else (\<Sum>msg\<leftarrow>msgs. int (length (content msg)))) = total_chars msgs"
    by (cases msgs) (auto simp: total_chars_def)
  then show ?thesis by (simp add: fitMessagesToContext_def Let_def)
qed

lemma filter_drop_first_non_system:
  "filter (\<lambda>msg. role msg = System) (drop_first_non_system msgs) = filter (\<lambda>msg. role msg = System) msgs"
  by (induction msgs) auto

lemma total_chars_filter_le: "total_chars (filter P msgs) \<le> total_chars msgs"
proof -
  have s: "(\<Sum>msg\<leftarrow>filter P msgs. int (length (content msg))) \<le> (\<Sum>msg\<leftarrow>msgs. int (length (content msg)))"
    by (induction msgs) auto
  have l: "length (filter P msgs) - 1 \<le> length msgs - 1"
    using length_filter_le[of P msgs] by arith
  show ?thesis unfolding total_chars_def using s l by linarith
qed

lemma spec_estimate_filter_le: "spec_estimate (filter P msgs) maxOutput \<le> spec_estimate msgs maxOutput"
  unfolding spec_estimate_def using total_chars_filter_le[of P msgs]
  by (simp add: ceiling_mono divide_right_mono)

lemma spec_fit_None_iff:
  "spec_fit msgs n contextWindow maxOutput = None \<longleftrightarrow>
   contextWindow < spec_estimate (filter (\<lambda>msg. role msg = System) msgs) maxOutput"
proof (induction msgs n contextWindow maxOutput rule: spec_fit.induct)
  case (1 msgs dropped contextWindow maxOutput)
  show ?case
  proof (cases "spec_estimate msgs maxOutput \<le> contextWindow")
    case True
    with spec_estimate_filter_le[of "\<lambda>msg. role msg = System" msgs maxOutput] show ?thesis
      by (subst spec_fit.simps) simp
  next
    case False
    show ?thesis
    proof (cases "list_all (\<lambda>msg. role msg = System) msgs")
      case True
      then have "filter (\<lambda>msg. role msg = System) msgs = msgs"
        by (simp add: list_all_iff)
      with False True show ?thesis by (subst spec_fit.simps) simp
    next
      case nall: False
      from "1.IH"[OF False nall] False nall show ?thesis
        by (subst spec_fit.simps) (simp add: filter_drop_first_non_system)
    qed
  qed
qed

subsection \<open>Substrings and the keyword patterns\<close>


lemma canonicalize_False [simp]: "canonicalize False c = c"
  by (simp add: canonicalize_def)

lemma map_canonicalize_False [simp]: "map (canonicalize False) s = s"
  by (induction s) auto

lemma ends_Lit:
  "set (rmatch (Lit l) False s i) = (if take (length l) (drop i s) = l then {i + length l} else {})"
  by simp

lemma ends_lits:
  "set (rmatch (lits kws) False s i) =
   {i + length kw | kw. kw \<in> set kws \<and> take (length kw) (drop i s) = kw}"
  by (induction kws rule: lits.induct) auto

lemma words_match:
  "rmatch (words r) False s i \<noteq> [] \<longleftrightarrow>
   word_boundary s i \<and> (\<exists>j \<in> set (rmatch r False s i). word_boundary s j)"
proof -
  have "rmatch (words r) False s i \<noteq> [] \<longleftrightarrow> set (rmatch (words r) False s i) \<noteq> {}"
    by simp
  also have "\<dots> \<longleftrightarrow> word_boundary s i \<and> (\<exists>j \<in> set (rmatch r False s i). word_boundary s j)"
    by (auto simp: words_def)
  finally show ?thesis .
qed

lemma regex_test_iff:
  "regex_test r ic s \<longleftrightarrow> (\<exists>i \<le> length s. rmatch r ic s i \<noteq> [])"
proof -
  have u: "set [0..<Suc (length s)] = {i. i \<le> length s}" by auto
  show ?thesis unfolding regex_test_def list_ex_iff u by blast
qed

lemma nth_mid_last: "kw \<noteq> [] \<Longrightarrow> (pre @ kw @ post) ! (length pre + length kw - 1) = last kw"
proof -
  assume kw: "kw \<noteq> []"
  then have "length pre + length kw - 1 = length pre + (length kw - 1)" by (cases kw) auto
  then have "(pre @ kw @ post) ! (length pre + length kw - 1) = (kw @ post) ! (length kw - 1)"
    by (simp only: nth_append_length_plus)
  also have "\<dots> = kw ! (length kw - 1)" using kw by (simp add: nth_append)
  also have "\<dots> = last kw" using kw by (simp add: last_conv_nth)
  finally show ?thesis .
qed

lemma take_append_eq:
  "take (length a + length b) t = a @ b \<longleftrightarrow>
   take (length a) t = a \<and> take (length b) (drop (length a) t) = b"
proof
  assume l: "take (length a + length b) t = a @ b"
  then have "length (take (length a + length b) t) = length a + length b" by simp
  then have len: "length a + length b \<le> length t" by simp
  have "take (length a) t @ take (length b) (drop (length a) t) = a @ b"
    using l by (simp add: take_add)
  moreover have "length (take (length a) t) = length a" using len by simp
  ultimately show "take (length a) t = a \<and> take (length b) (drop (length a) t) = b"
    by (metis append_eq_append_conv)
next
  assume "take (length a) t = a \<and> take (length b) (drop (length a) t) = b"
  then show "take (length a + length b) t = a @ b" by (simp add: take_add)
qed

lemma ends_Lit_Opt:
  "set (rmatch (Seq (Lit a) (Opt (Lit b))) False s i) =
   set (rmatch (Lit a) False s i) \<union> set (rmatch (Lit (a @ b)) False s i)"
proof -
  have d: "drop (length a) (drop i s) = drop (i + length a) s" by (simp add: add.commute)
  show ?thesis using take_append_eq[of a b "drop i s"] unfolding d by (auto simp: add.assoc)
qed

lemma prefix_at_iff:
  "i \<le> length s \<and> take (length kw) (drop i s) = kw \<longleftrightarrow>
   (\<exists>pre post. s = pre @ kw @ post \<and> length pre = i)"
proof
  assume a: "i \<le> length s \<and> take (length kw) (drop i s) = kw"
  then have "s = take i s @ kw @ drop (length kw) (drop i s)"
    by (metis append_take_drop_id)
  with a show "\<exists>pre post. s = pre @ kw @ post \<and> length pre = i"
    by (metis length_take min.absorb2)
next
  assume "\<exists>pre post. s = pre @ kw @ post \<and> length pre = i"
  then show "i \<le> length s \<and> take (length kw) (drop i s) = kw" by auto
qed

lemma occurs_iff: "occurs kw s \<longleftrightarrow> (\<exists>i \<le> length s. take (length kw) (drop i s) = kw)"
  using prefix_at_iff[of _ s kw] unfolding occurs_def by blast

lemma word_at_iff:
  assumes kw: "kw \<noteq> []" "is_word_char (hd kw)" "is_word_char (last kw)"
  shows "(\<exists>i \<le> length s. word_boundary s i \<and> take (length kw) (drop i s) = kw \<and>
            word_boundary s (i + length kw)) \<longleftrightarrow> occurs_as_word kw s"
proof
  assume "\<exists>i \<le> length s. word_boundary s i \<and> take (length kw) (drop i s) = kw \<and>
            word_boundary s (i + length kw)"
  then obtain i where i: "i \<le> length s" "word_boundary s i" "take (length kw) (drop i s) = kw"
    "word_boundary s (i + length kw)" by blast
  from i(1,3) obtain pre post where s: "s = pre @ kw @ post" "length pre = i"
    using prefix_at_iff[of i s kw] by blast
  have at_i: "i < length s" "s ! i = hd kw"
    using s kw(1) by (auto simp: nth_append hd_conv_nth)
  have before: "0 < i \<Longrightarrow> s ! (i - 1) = last pre"
    using s by (auto simp: nth_append last_conv_nth)
  have l: "pre = [] \<or> \<not> is_word_char (last pre)"
    using i(2) at_i before kw(2) s(2) by (auto simp: word_boundary_def)
  have at_end: "0 < i + length kw" "s ! (i + length kw - 1) = last kw"
    using s kw(1) nth_mid_last[of kw pre post] by auto
  have after: "post \<noteq> [] \<Longrightarrow> i + length kw < length s \<and> s ! (i + length kw) = hd post"
    using s by (auto simp: nth_append hd_conv_nth)
  have r: "post = [] \<or> \<not> is_word_char (hd post)"
    using i(4) at_end after kw(3) by (auto simp: word_boundary_def)
  from s l r show "occurs_as_word kw s" unfolding occurs_as_word_def by blast
next
  assume "occurs_as_word kw s"
  then obtain pre post where s: "s = pre @ kw @ post"
    and l: "pre = [] \<or> \<not> is_word_char (last pre)"
    and r: "post = [] \<or> \<not> is_word_char (hd post)"
    unfolding occurs_as_word_def by blast
  let ?i = "length pre"
  have at_i: "?i < length s" "s ! ?i = hd kw"
    using s kw(1) by (auto simp: nth_append hd_conv_nth)
  have before: "0 < ?i \<Longrightarrow> s ! (?i - 1) = last pre"
    using s by (auto simp: nth_append last_conv_nth)
  have b1: "word_boundary s ?i"
    using l at_i before kw(2) by (auto simp: word_boundary_def)
  have at_end: "0 < ?i + length kw" "s ! (?i + length kw - 1) = last kw"
    using s kw(1) nth_mid_last[of kw pre post] by auto
  have after: "?i + length kw < length s \<Longrightarrow> post \<noteq> [] \<and> s ! (?i + length kw) = hd post"
    using s by (auto simp: nth_append hd_conv_nth)
  have b2: "word_boundary s (?i + length kw)"
    using r at_end after kw(3) by (auto simp: word_boundary_def)
  have t: "take (length kw) (drop ?i s) = kw" using s by simp
  have "?i \<le> length s" using s by simp
  with b1 b2 t show "\<exists>i \<le> length s. word_boundary s i \<and> take (length kw) (drop i s) = kw \<and>
            word_boundary s (i + length kw)"
    by blast
qed

lemma test_words_lits:
  assumes "list_all wordlike kws"
  shows "regex_test (words (lits kws)) False s \<longleftrightarrow> (\<exists>kw \<in> set kws. occurs_as_word kw s)"
proof -
  have "regex_test (words (lits kws)) False s \<longleftrightarrow>
        (\<exists>kw \<in> set kws. \<exists>i \<le> length s. word_boundary s i \<and> take (length kw) (drop i s) = kw \<and>
            word_boundary s (i + length kw))"
    unfolding regex_test_iff words_match ends_lits by blast
  also have "\<dots> \<longleftrightarrow> (\<exists>kw \<in> set kws. occurs_as_word kw s)"
    using assms word_at_iff by (auto simp: list_all_iff wordlike_def)
  finally show ?thesis .
qed

lemma ends_research:
  "set (rmatch (Alt (Lit ''latest'') (Alt (Seq (Lit ''source'') (Opt (Lit ''s'')))
       (Alt (Lit ''compare'') (Alt (Lit ''research'') (Lit ''cite''))))) False s i) =
   set (rmatch (lits research_keywords) False s i)"
proof -
  have so: "''source'' @ ''s'' = ''sources''" by simp
  show ?thesis
    unfolding research_keywords_def lits.simps rmatch.simps(8) set_append ends_Lit_Opt so
    by blast
qed

lemma test_research:
  "regex_test research_regex False s \<longleftrightarrow> (\<exists>kw \<in> set research_keywords. occurs_as_word kw s)"
proof -
  have w: "list_all wordlike research_keywords"
    by (simp add: research_keywords_def wordlike_def is_word_char_def code_unit_def)
  have "regex_test research_regex False s \<longleftrightarrow> regex_test (words (lits research_keywords)) False s"
    unfolding regex_test_iff research_regex_def words_match ends_research ..
  then show ?thesis using test_words_lits[OF w] by simp
qed

lemma test_code:
  "regex_test code_regex False s \<longleftrightarrow>
   occurs fence s \<or> (\<exists>kw \<in> set code_keywords. occurs_as_word kw s)"
proof -
  have w: "list_all wordlike code_keywords"
    by (simp add: code_keywords_def wordlike_def is_word_char_def code_unit_def)
  have "regex_test code_regex False s \<longleftrightarrow>
        (\<exists>i \<le> length s. take (length fence) (drop i s) = fence) \<or>
        regex_test (words (lits code_keywords)) False s"
    unfolding regex_test_iff code_regex_def by auto
  then show ?thesis using test_words_lits[OF w] by (simp add: occurs_iff)
qed

lemma test_rewrite:
  "regex_test rewrite_regex False s \<longleftrightarrow> (\<exists>kw \<in> set rewrite_keywords. occurs_as_word kw s)"
proof -
  have w: "list_all wordlike rewrite_keywords"
    by (simp add: rewrite_keywords_def wordlike_def is_word_char_def code_unit_def)
  show ?thesis unfolding rewrite_regex_def using test_words_lits[OF w] .
qed

section \<open>The claims\<close>



text \<open>
  C2. When a provider call made for a candidate \<open>m\<close> throws a \<open>RATE_LIMIT\<close> adapter
  error (from \<open>generate\<close>, or from \<open>stream\<close> on the pass-through path), the attempt
  goes on to the next candidate, logs \<open>rate_limit\<close> and leaves the health store as
  \<open>markRateLimited(m, cooldown, {strikes, lastRateLimitAt: now})\<close> followed by the failure
  for the success rate, where \<open>now\<close> is the time the error was caught, \<open>strikes\<close> is
  the previous \<open>rateLimitStrikes + 1\<close> when \<open>now - lastRateLimitAt \<le> 60000\<close> and \<open>1\<close>
  otherwise, and \<open>cooldown\<close> is the error's \<open>retryAfterMs\<close> when it has one and
  \<open>min(2000 * 2^(strikes - 1), 60000)\<close> otherwise: afterwards \<open>cooldownUntil\<close> is
  \<open>now + cooldown\<close>.
\<close>

theorem rate_limit_cooldown:
  assumes fit: "fitMessagesToContext (messages request) (model_context model)
                  (nullish (maxTokens request) 0) = Some fitted"
    and thrown:
      "(\<not> (stream request \<and> allowDegrade request) \<and>
          call_generate deps FromRoute model (request\<lparr>messages := fit_messages fitted\<rparr>) w
            = (Inl (AdapterError RATE_LIMIT msg retryAfterMs), w1)) \<or>
       (stream request \<and> allowDegrade request \<and>
          call_stream deps model (request\<lparr>messages := fit_messages fitted\<rparr>) w
            = (Inl (AdapterError RATE_LIMIT msg retryAfterMs), w1))"
  shows
    "(let m = model_id model;
          strikes = spec_strikes (health_get w m) (now w1);
          cooldown = spec_cooldown retryAfterMs strikes;
          entry = \<lparr>attempt_modelId = m, outcome = RateLimit, attempt_score = None\<rparr>;
          w' = snd (snd (attemptModel deps request threshold model attemptsLog w))
      in attemptModel deps request threshold model attemptsLog w =
           (Continue, attemptsLog @ [entry],
            session_attempt deps request entry
              (health_recordResult m False (Some (now w1 - now w))
                 (markRateLimited m cooldown (Some strikes) (Some (now w1)) w1))) \<and>
         cooldownUntil (health_get w' m) = now w1 + cooldown \<and>
         rateLimitStrikes (health_get w' m) = strikes \<and>
         lastRateLimitAt (health_get w' m) = now w1)"
proof -
  let ?m = "model_id model"
  let ?strikes = "spec_strikes (health_get w ?m) (now w1)"
  let ?cooldown = "spec_cooldown retryAfterMs ?strikes"
  let ?entry = "\<lparr>attempt_modelId = ?m, outcome = RateLimit, attempt_score = None\<rparr>"
  let ?marked = "markRateLimited ?m ?cooldown (Some ?strikes) (Some (now w1)) w1"
  let ?final = "session_attempt deps request ?entry
                  (health_recordResult ?m False (Some (now w1 - now w)) ?marked)"
  have h: "health_get w1 ?m = health_get w ?m"
    using thrown call_generate_frame(3) call_stream_frame(3) health_get_cong by metis
  have handled: "handleThrown deps request model (now w)
                   (AdapterError RATE_LIMIT msg retryAfterMs) attemptsLog w1 =
                 (attemptsLog @ [?entry], ?final)"
    by (simp add: handleThrown_def failed_attempt_def Let_def h
        spec_strikes_def spec_cooldown_def nullish_def
        RATE_LIMIT_BASE_MS_def RATE_LIMIT_CAP_MS_def RATE_LIMIT_WINDOW_MS_def
        split: option.splits)
  have am: "attemptModel deps request threshold model attemptsLog w =
              (Continue, attemptsLog @ [?entry], ?final)"
    using thrown
  proof
    assume g: "\<not> (stream request \<and> allowDegrade request) \<and>
          call_generate deps FromRoute model (request\<lparr>messages := fit_messages fitted\<rparr>) w
            = (Inl (AdapterError RATE_LIMIT msg retryAfterMs), w1)"
    then have ns: "(stream request \<and> allowDegrade request) = False" by simp
    from g fit handled show ?thesis
      by (simp add: attemptModel_def Let_def ns)
  next
    assume s: "stream request \<and> allowDegrade request \<and>
          call_stream deps model (request\<lparr>messages := fit_messages fitted\<rparr>) w
            = (Inl (AdapterError RATE_LIMIT msg retryAfterMs), w1)"
    with fit handled show ?thesis
      by (simp add: attemptModel_def Let_def)
  qed
  have hs: "healthStore ?final = healthStore (health_recordResult ?m False (Some (now w1 - now w)) ?marked)"
    by simp
  have fin: "health_get ?final ?m =
             (health_get ?marked ?m)
               \<lparr>rollingLatencyMs := rollingLatencyMs (health_get ?marked ?m) * (1 - EMA_ALPHA)
                    + of_int (now w1 - now w) * EMA_ALPHA,
                rollingSuccessRate := rollingSuccessRate (health_get ?marked ?m) * (1 - EMA_ALPHA)
                    + 0 * EMA_ALPHA\<rparr>"
    unfolding health_get_cong[OF hs]
    by (simp add: health_recordResult_def health_get_def Let_def)
  have mk: "cooldownUntil (health_get ?marked ?m) = now w1 + ?cooldown"
    "rateLimitStrikes (health_get ?marked ?m) = ?strikes"
    "lastRateLimitAt (health_get ?marked ?m) = now w1"
    by (simp_all add: markRateLimited_def health_get_def Let_def)
  show ?thesis
    unfolding Let_def am snd_conv fin using mk by simp
qed

theorem rate_limit_cooldown_witness:
  "(let deps = scenario_deps 8000 (Inl (AdapterError RATE_LIMIT ''rate limited'' None));
        model = scenario_model ''model:a'' 8000;
        w' = snd (snd (attemptModel deps scenario_request 0.9 model [] scenario_world))
    in fst (attemptModel deps scenario_request 0.9 model [] scenario_world) = Continue \<and>
       cooldownUntil (health_get w' ''model:a'') = 2001 \<and>
       rateLimitStrikes (health_get w' ''model:a'') = 1 \<and>
       lastRateLimitAt (health_get w' ''model:a'') = 1)"
proof -
  let ?deps = "scenario_deps 8000 (Inl (AdapterError RATE_LIMIT ''rate limited'' None))"
  let ?model = "scenario_model ''model:a'' 8000"
  let ?fitted = "\<lparr>fit_messages = messages scenario_request, trimmedCount = 0\<rparr>"
  let ?call = "call_generate ?deps FromRoute ?model
                 (scenario_request\<lparr>messages := fit_messages ?fitted\<rparr>) scenario_world"
  have fit: "fitMessagesToContext (messages scenario_request) (model_context ?model)
               (nullish (maxTokens scenario_request) 0) = Some ?fitted"
    by code_simp
  have ns: "\<not> (stream scenario_request \<and> allowDegrade scenario_request)"
    by (simp add: scenario_request_def)
  have "fst ?call = Inl (AdapterError RATE_LIMIT ''rate limited'' None)"
    by (simp add: call_generate_def scenario_deps_def)
  then have gen: "?call = (Inl (AdapterError RATE_LIMIT ''rate limited'' None), snd ?call)"
    by (metis prod.collapse)
  have t: "now (snd ?call) = 1"
    by (simp add: call_generate_def scenario_deps_def scenario_world_def)
  have m: "model_id ?model = ''model:a''" by (simp add: scenario_model_def)
  have s: "spec_strikes (health_get scenario_world ''model:a'') 1 = 1"
    by (simp add: spec_strikes_def health_get_def scenario_world_def DEFAULT_HEALTH_def)
  have c: "spec_cooldown None 1 = 2000" by (simp add: spec_cooldown_def)
  note claim = rate_limit_cooldown[OF fit disjI1[OF conjI[OF ns gen]], of "0.9" "[]",
      unfolded Let_def m t s c]
  from claim[THEN conjunct1]
  have "fst (attemptModel ?deps scenario_request 0.9 ?model [] scenario_world) = Continue"
    by simp
  with claim[THEN conjunct2] show ?thesis unfolding Let_def by simp
qed



text \<open>
  C4 (as amended). For a request with \<open>resume = true\<close>, when a session store is
  configured and the session stored under the request's id is complete with a stored
  response text that is not empty, \<open>route\<close> returns that text unchanged, with the
  session's model and attempts as metadata, and leaves the world as it was: no provider is
  called, whatever the bound on the cycles.
\<close>

theorem resume_returns_stored_text:
  assumes "resume request" and "has_sessionStore deps"
    and "sessionStore w (requestId request) = Some session"
    and "status session = Complete"
    and "responseText session = Some stored" and "stored \<noteq> []"
  shows "route fuel request deps w =
           Some (Inr (TextResult \<lparr>resp_text = stored, toolCalls = None, totalTokens = None\<rparr>
                   (nullish (session_selectedModelId session) ''unknown'')
                   (buildMetadata (session_attempts session)
                      (nullish (session_selectedModelId session) ''unknown'') (taskType request))),
                 [], w)"
  using assms by (simp add: route_def resumeHit_def Let_def)

theorem resume_returns_stored_text_witness:
  "(let session = empty_text_session\<lparr>responseText := Some ''cached answer''\<rparr>;
        request = scenario_request\<lparr>resume := True\<rparr>;
        w = stored_session session
    in \<exists>modelId metadata.
         route 0 request (scenario_deps 8000 (reply ''no'')) w =
           Some (Inr (TextResult \<lparr>resp_text = ''cached answer'', toolCalls = None,
                                  totalTokens = None\<rparr> modelId metadata), [], w))"
proof -
  let ?session = "empty_text_session\<lparr>responseText := Some ''cached answer''\<rparr>"
  let ?request = "scenario_request\<lparr>resume := True\<rparr>"
  have a: "resume ?request" "has_sessionStore (scenario_deps 8000 (reply ''no''))"
    "sessionStore (stored_session ?session) (requestId ?request) = Some ?session"
    "status ?session = Complete" "responseText ?session = Some ''cached answer''"
    "''cached answer'' \<noteq> []"
    by (simp_all add: scenario_request_def scenario_deps_def stored_session_def
        empty_text_session_def)
  from resume_returns_stored_text[OF a, of 0] show ?thesis
    unfolding Let_def by blast
qed

text \<open>
  The claim as stated fails for a complete session whose stored text is empty (the resume
  path tests \<open>session.responseText\<close> for truth). Such a session arises from \<open>route\<close>
  itself: with \<open>allowDegrade\<close> an empty answer is accepted and recorded. Replayed with
  \<open>resume = true\<close>, the request is attempted afresh: the provider is called, and here
  the request even ends in \<open>NoSuitableModelError\<close>.
\<close>

theorem resume_empty_text_counterexample:
  "map_option (\<lambda>(out, attemptsLog, w'). sessionStore w' ''req_test'')
     (route 2 (scenario_request\<lparr>allowDegrade := True\<rparr>) (scenario_deps 8000 (reply []))
        scenario_world) = Some (Some empty_text_session) \<and>
   resume (scenario_request\<lparr>resume := True\<rparr>) \<and>
   requestId (scenario_request\<lparr>resume := True\<rparr>) = ''req_test'' \<and>
   sessionStore (stored_session empty_text_session) ''req_test'' = Some empty_text_session \<and>
   status empty_text_session = Complete \<and>
   map_option (\<lambda>(out, attemptsLog, w'). (out, calls w'))
     (route 2 (scenario_request\<lparr>resume := True\<rparr>) (scenario_deps 8000 (reply ''fresh text''))
        (stored_session empty_text_session)) =
     Some (Inl (NoSuitableModelError 10000), [GenerateCall FromRoute ''model:a''])"
  by code_simp

text \<open>
  C5. The context fitter computes what the specification describes: it estimates the
  tokens of the current messages as the ceiling of a quarter of their characters (one
  separator counted between adjacent messages) plus the maximum output tokens, returns the
  messages when the estimate is within the context window, and otherwise drops the first
  non-system message and starts over. It returns null exactly when the system messages
  alone do not fit. On null the router logs a \<open>permanent\<close> attempt for the model, passes
  to the next candidate and calls no provider.
\<close>

theorem context_fitter:
  "fitMessagesToContext msgs contextWindow maxOutput = spec_fit msgs 0 contextWindow maxOutput \<and>
   (fitMessagesToContext msgs contextWindow maxOutput = None \<longleftrightarrow>
      contextWindow < spec_estimate (filter (\<lambda>msg. role msg = System) msgs) maxOutput) \<and>
   (fitMessagesToContext (messages request) (model_context model)
        (nullish (maxTokens request) 0) = None \<longrightarrow>
      (let entry = \<lparr>attempt_modelId = model_id model, outcome = Permanent, attempt_score = None\<rparr>
       in attemptModel deps request threshold model attemptsLog w =
            (Continue, attemptsLog @ [entry], session_attempt deps request entry w) \<and>
          calls (session_attempt deps request entry w) = calls w \<and>
          ext (session_attempt deps request entry w) = ext w))"
proof -
  have r: "fitMessagesToContext msgs contextWindow maxOutput = spec_fit msgs 0 contextWindow maxOutput"
    unfolding fitMessagesToContext_total by (rule fit_loop_refines)
  have n: "fitMessagesToContext msgs contextWindow maxOutput = None \<longleftrightarrow>
      contextWindow < spec_estimate (filter (\<lambda>msg. role msg = System) msgs) maxOutput"
    unfolding r by (rule spec_fit_None_iff)
  have a: "fitMessagesToContext (messages request) (model_context model)
        (nullish (maxTokens request) 0) = None \<Longrightarrow>
      attemptModel deps request threshold model attemptsLog w =
        (Continue,
         attemptsLog @ [\<lparr>attempt_modelId = model_id model, outcome = Permanent, attempt_score = None\<rparr>],
         session_attempt deps request
           \<lparr>attempt_modelId = model_id model, outcome = Permanent, attempt_score = None\<rparr> w)"
    by (simp add: attemptModel_def Let_def)
  from r n a show ?thesis by (simp add: Let_def)
qed

theorem context_fitter_witness:
  "spec_fit trim_messages 0 60 8 =
     Some \<lparr>fit_messages = [\<lparr>role = System, content = ''system''\<rparr>,
                            \<lparr>role = User, content = ''keep me''\<rparr>],
           trimmedCount = 2\<rparr> \<and>
   spec_fit trim_messages 0 9 8 = None \<and>
   4 < spec_estimate (filter (\<lambda>msg. role msg = System) (messages scenario_request)) 8 \<and>
   fst (attemptModel (scenario_deps 4 (reply ''no'')) scenario_request 0.9
          (scenario_model ''model:a'' 4) [] scenario_world) = Continue \<and>
   fst (snd (attemptModel (scenario_deps 4 (reply ''no'')) scenario_request 0.9
          (scenario_model ''model:a'' 4) [] scenario_world)) =
     [\<lparr>attempt_modelId = ''model:a'', outcome = Permanent, attempt_score = None\<rparr>]"
proof -
  have f1: "fitMessagesToContext trim_messages 60 8 =
     Some \<lparr>fit_messages = [\<lparr>role = System, content = ''system''\<rparr>,
                            \<lparr>role = User, content = ''keep me''\<rparr>],
           trimmedCount = 2\<rparr>"
    by code_simp
  have f2: "fitMessagesToContext trim_messages 9 8 = None" by code_simp
  have f3: "fitMessagesToContext (messages scenario_request)
              (model_context (scenario_model ''model:a'' 4))
              (nullish (maxTokens scenario_request) 0) = None"
    by code_simp
  have m: "model_context (scenario_model ''model:a'' 4) = 4"
    "model_id (scenario_model ''model:a'' 4) = ''model:a''"
    "nullish (maxTokens scenario_request) 0 = 8"
    by (simp_all add: scenario_model_def scenario_request_def nullish_def)
  note c1 = context_fitter[of trim_messages 60 8, THEN conjunct1]
  note c2 = context_fitter[of trim_messages 9 8, THEN conjunct1]
  note c3 = context_fitter[of "messages scenario_request" 4 8, THEN conjunct2, THEN conjunct1]
  note c4 = context_fitter[of _ _ _ scenario_request "scenario_model ''model:a'' 4"
      "scenario_deps 4 (reply ''no'')" "0.9" "[]" scenario_world,
      THEN conjunct2, THEN conjunct2, rule_format, OF f3, unfolded Let_def m, THEN conjunct1]
  have e: "4 < spec_estimate (filter (\<lambda>msg. role msg = System) (messages scenario_request)) 8"
    using c3 f3[unfolded m] by simp
  from c1[symmetric] c2[symmetric] f1 f2 e c4 show ?thesis by simp
qed

text \<open>
  C6 (as amended). Every attempt on a candidate adds exactly one entry to the attempt log,
  and exactly one candidate call (\<open>adapter.generate\<close> or \<open>adapter.stream\<close> for that
  candidate) when the request can be fitted into the candidate's context window, none
  when it cannot. So when \<open>route\<close> ends, the candidate calls it made are at most as
  many as the entries of its attempt log, and exactly as many when the request fits the
  context window of every model. The judge hook's own \<open>generate\<close> call is not a
  candidate call and has no entry.
\<close>

theorem attempt_log_counts_candidate_attempts:
  "(\<forall>step attemptsLog' w'.
      attemptModel deps request threshold model attemptsLog w = (step, attemptsLog', w') \<longrightarrow>
      length attemptsLog' = length attemptsLog + 1 \<and>
      candidate_calls (calls w') =
        candidate_calls (calls w) + (if fits request model then 1 else 0)) \<and>
   (\<forall>fuel out attemptsLog' w'.
      route fuel request deps w = Some (out, attemptsLog', w') \<longrightarrow>
      candidate_calls (calls w') \<le> candidate_calls (calls w) + length attemptsLog' \<and>
      (list_all (fits request) (models deps) \<longrightarrow>
         candidate_calls (calls w') = candidate_calls (calls w) + length attemptsLog'))"
proof (intro conjI allI impI)
  fix step attemptsLog' w'
  assume am: "attemptModel deps request threshold model attemptsLog w = (step, attemptsLog', w')"
  from attemptModel_effect[OF am] show "length attemptsLog' = length attemptsLog + 1"
    by auto
  from attemptModel_effect[OF am]
  show "candidate_calls (calls w') =
          candidate_calls (calls w) + (if fits request model then 1 else 0)"
    by (auto simp: fits_def split: option.splits)
next
  fix fuel out attemptsLog' w'
  assume r: "route fuel request deps w = Some (out, attemptsLog', w')"
  from route_effect[OF r]
  show "candidate_calls (calls w') \<le> candidate_calls (calls w) + length attemptsLog'"
    by simp
  assume "list_all (fits request) (models deps)"
  with route_effect[OF r]
  show "candidate_calls (calls w') = candidate_calls (calls w) + length attemptsLog'"
    by simp
qed

theorem attempt_log_counts_candidate_attempts_witness:
  "list_all (fits scenario_request) (models (scenario_deps 8000 (reply ''no''))) \<and>
   (\<exists>out attemptsLog' w'.
      route 2 scenario_request (scenario_deps 8000 (reply ''no'')) scenario_world
        = Some (out, attemptsLog', w') \<and>
      length attemptsLog' = 1 \<and>
      candidate_calls (calls w') = candidate_calls (calls scenario_world) + length attemptsLog')"
proof -
  let ?deps = "scenario_deps 8000 (reply ''no'')"
  have f: "list_all (fits scenario_request) (models ?deps)" by code_simp
  have "map_option (\<lambda>(out, attemptsLog', w'). length attemptsLog')
          (route 2 scenario_request ?deps scenario_world) = Some 1"
    by code_simp
  then obtain out attemptsLog' w' where
    r: "route 2 scenario_request ?deps scenario_world = Some (out, attemptsLog', w')"
    and l: "length attemptsLog' = 1"
    by (auto simp: map_option_case split: option.splits)
  from attempt_log_counts_candidate_attempts[of ?deps scenario_request _ _ _ scenario_world,
      THEN conjunct2, rule_format, OF r, THEN conjunct2, rule_format, OF f] r l f
  show ?thesis by blast
qed

text \<open>
  The claim as stated fails both ways. A candidate whose context window cannot hold the
  request is logged as \<open>permanent\<close> and never called: one entry, no invocation. A
  response below the threshold that the judge rescues costs two invocations, the
  candidate's and the judge's, for one entry.
\<close>

theorem attempt_log_counterexample:
  "map_option (\<lambda>(out, attemptsLog', w'). (length attemptsLog', length (calls w')))
     (route 2 scenario_request (scenario_deps 4 (reply ''no'')) scenario_world) = Some (1, 0) \<and>
   map_option (\<lambda>(out, attemptsLog', w'). (length attemptsLog', calls w'))
     (route 2 scenario_request judge_deps scenario_world) =
     Some (1, [GenerateCall FromRoute ''model:a'', GenerateCall FromJudge ''model:judge''])"
  by code_simp

text \<open>
  C7 (as amended). Over the lower-cased text, \<open>inferTaskType\<close> returns \<open>code\<close> exactly
  when a fence of three backquotes occurs or one of the keywords stack trace, error,
  exception, refactor, implement, bug, typescript, javascript, bun stands as a whole word
  (no letter, digit or underscore next to it); otherwise \<open>rewrite\<close> when one of
  summarize, rewrite, rephrase, tone, polish stands as a whole word; otherwise
  \<open>research\<close> when one of latest, source, sources, compare, research, cite does;
  otherwise \<open>reasoning\<close>.
\<close>

theorem inferTaskType_whole_words: "inferTaskType txt = amended_inferTaskType txt"
  by (simp add: inferTaskType_def amended_inferTaskType_def Let_def test_code test_rewrite
      test_research)

theorem inferTaskType_whole_words_witness:
  "amended_inferTaskType ''fix the BUG'' = Code \<and>
   amended_inferTaskType ''Polish it'' = Rewrite \<and>
   amended_inferTaskType ''two sources'' = Research \<and>
   amended_inferTaskType ''terrors'' = Reasoning"
proof -
  have "inferTaskType ''fix the BUG'' = Code" by code_simp
  moreover have "inferTaskType ''Polish it'' = Rewrite"
    by code_simp
  moreover have "inferTaskType ''two sources'' = Research"
    by code_simp
  moreover have "inferTaskType ''terrors'' = Reasoning" by code_simp
  ultimately show ?thesis unfolding inferTaskType_whole_words by simp
qed

text \<open>
  The claim as stated fails: \<open>bun\<close> is a code keyword of the program and none of the
  specification's, so a text with this word alone is classified \<open>code\<close> while no fence
  and none of the eight listed keywords occurs in it.
\<close>

theorem inferTaskType_bun_counterexample:
  "inferTaskType ''run bun test'' = Code \<and>
   \<not> str_includes (toLowerCase ''run bun test'') fence \<and>
   \<not> list_ex (str_includes (toLowerCase ''run bun test'')) claimed_code_keywords \<and>
   claimed_inferTaskType ''run bun test'' = Reasoning"
  by code_simp

text \<open>
  C8. For a request to \<open>/v1/chat/completions\<close> or \<open>/v1/responses\<close> without the header
  \<open>x-router-quality-threshold\<close>, or with a value that is not a number, the handler
  passes \<open>route\<close> a request whose \<open>qualityThreshold\<close> is 0. \<open>route\<close> replaces
  only an absent threshold, so the effective threshold is 0 whatever the policy says, and
  every response that \<open>generate\<close> returns is accepted and logged as a success.
\<close>

theorem missing_threshold_header_disables_gate:
  assumes hdr: "headers req ''x-router-quality-threshold'' = None \<or>
                (\<exists>v. headers req ''x-router-quality-threshold'' = Some v \<and> toNumber env v = None)"
  shows
    "qualityThreshold (buildRouterRequest env req b msgs nowMs) = Some 0 \<and>
     (\<forall>policy. effective_threshold (buildRouterRequest env req b msgs nowMs) policy = 0) \<and>
     (\<forall>deps model attemptsLog w fitted response w1.
        (let request = buildRouterRequest env req b msgs nowMs;
             threshold = effective_threshold request (policyForTask (policies deps) (taskType request))
         in \<not> (stream request \<and> allowDegrade request) \<longrightarrow>
            fitMessagesToContext (messages request) (model_context model)
              (nullish (maxTokens request) 0) = Some fitted \<longrightarrow>
            call_generate deps FromRoute model (request\<lparr>messages := fit_messages fitted\<rparr>) w
              = (Inr response, (w1 :: 'x World)) \<longrightarrow>
            (\<exists>result attemptsLog' w'.
               attemptModel deps request threshold model attemptsLog w
                 = (Returned result, attemptsLog', w') \<and>
               attemptsLog' \<noteq> [] \<and> outcome (last attemptsLog') = Success))) \<and>
     (\<forall>deps fuel (w :: 'x World).
        http_method req = ''POST'' \<longrightarrow>
        pathname req = ''/v1/chat/completions'' \<or> pathname req = ''/v1/responses'' \<longrightarrow>
        body req = Some b \<longrightarrow> body_messages b = Some msgs \<longrightarrow> msgs \<noteq> [] \<longrightarrow>
        (resume (buildRouterRequest env req b msgs (now w)) \<longrightarrow> isResumeAuthorized env req) \<longrightarrow>
        (pathname req = ''/v1/responses'' \<longrightarrow> \<not> stream (buildRouterRequest env req b msgs (now w))) \<longrightarrow>
        handler env deps fuel req w =
          (case route fuel (buildRouterRequest env req b msgs (now w)) deps w of
             None \<Rightarrow> None
           | Some (Inl e, attemptsLog, w') \<Rightarrow> Some (respond_error e, w')
           | Some (Inr result, attemptsLog, w') \<Rightarrow> Some (respond_result req result, w')))"
proof -
  have pt: "parseThreshold env (headers req ''x-router-quality-threshold'') = None"
    using hdr by (auto simp: parseThreshold_def)
  have q: "qualityThreshold (buildRouterRequest env req b msgs nowMs) = Some 0"
    by (simp add: buildRouterRequest_def Let_def pt nullish_def)
  have e: "effective_threshold (buildRouterRequest env req b msgs nowMs) policy = 0" for policy
    by (simp add: effective_threshold_def q nullish_def)
  show ?thesis
    unfolding Let_def e
    using q threshold_zero_accepts handler_routes by blast
qed

theorem missing_threshold_header_disables_gate_witness:
  "(let req = scenario_http [''x-router-quality-threshold'' \<mapsto> ''high''];
        b = \<lparr>body_messages = Some [\<lparr>role = User, content = ''Hello there.''\<rparr>],
             body_task_type = None, body_request_id = None, body_max_tokens = None,
             body_stream = False\<rparr>
    in toNumber scenario_env ''high'' = None \<and>
       qualityThreshold (buildRouterRequest scenario_env req b
          [\<lparr>role = User, content = ''Hello there.''\<rparr>] 0) = Some 0 \<and>
       policy_qualityThreshold scenario_policy = 0.9 \<and>
       map_option (\<lambda>(resp, w'). http_status resp)
         (handler scenario_env (scenario_deps 8000 (reply ''no'')) 2 req scenario_world) = Some 200)"
proof -
  let ?req = "scenario_http [''x-router-quality-threshold'' \<mapsto> ''high'']"
  have n: "toNumber scenario_env ''high'' = None" by (simp add: scenario_env_def)
  have h: "headers ?req ''x-router-quality-threshold'' = None \<or>
           (\<exists>v. headers ?req ''x-router-quality-threshold'' = Some v \<and> toNumber scenario_env v = None)"
    using n by (simp add: scenario_http_def)
  have p: "policy_qualityThreshold scenario_policy = 0.9" by (simp add: scenario_policy_def)
  have r: "map_option (\<lambda>(resp, w'). http_status resp)
         (handler scenario_env (scenario_deps 8000 (reply ''no'')) 2 ?req scenario_world) = Some 200"
    by code_simp
  from missing_threshold_header_disables_gate[OF h, THEN conjunct1] n p r
  show ?thesis unfolding Let_def by simp
qed

text \<open>
  C9. A non-streaming attempt with \<open>allowDegrade\<close> whose \<open>generate\<close> call returns is
  answered with that response and logged as a success with the evaluated score, while
  \<open>healthStore.recordResult\<close> is given \<open>success = (score \<ge> threshold)\<close>: the rolling
  success rate becomes \<open>0.8 * old + 0.2\<close> when the score reaches the threshold and
  \<open>0.8 * old\<close> when it does not, which is lower than before whenever the old rate is
  positive.
\<close>

theorem allow_degrade_records_gate_result:
  assumes deg: "allowDegrade request" and ns: "\<not> stream request"
    and fit: "fitMessagesToContext (messages request) (model_context model)
                (nullish (maxTokens request) 0) = Some fitted"
    and gen: "call_generate deps FromRoute model (request\<lparr>messages := fit_messages fitted\<rparr>) w
                = (Inr response, w1)"
  shows
    "(let m = model_id model;
          (score, w2) = evaluate deps (resp_text response) request (codeEvaluation (policies deps))
                          (case toolCalls response of None \<Rightarrow> False | Some n \<Rightarrow> 0 < n) w1;
          entry = \<lparr>attempt_modelId = m, outcome = Success, attempt_score = Some score\<rparr>;
          (step, attemptsLog', w') = attemptModel deps request threshold model attemptsLog w
      in step = Returned (TextResult response m
                  (buildMetadata (attemptsLog @ [entry]) m (taskType request))) \<and>
         attemptsLog' = attemptsLog @ [entry] \<and>
         healthStore w' =
           healthStore (health_recordResult m (threshold \<le> score) (Some (now w1 - now w)) w2) \<and>
         rollingSuccessRate (health_get w' m) =
           rollingSuccessRate (health_get w m) * 0.8 + (if threshold \<le> score then 0.2 else 0) \<and>
         (score < threshold \<longrightarrow> 0 < rollingSuccessRate (health_get w m) \<longrightarrow>
            rollingSuccessRate (health_get w' m) < rollingSuccessRate (health_get w m)))"
proof -
  let ?m = "model_id model"
  let ?tools = "case toolCalls response of None \<Rightarrow> False | Some n \<Rightarrow> 0 < n"
  obtain score w2 where ev: "evaluate deps (resp_text response) request
      (codeEvaluation (policies deps)) ?tools w1 = (score, w2)"
    by (cases "evaluate deps (resp_text response) request (codeEvaluation (policies deps)) ?tools w1")
  let ?entry = "\<lparr>attempt_modelId = ?m, outcome = Success, attempt_score = Some score\<rparr>"
  let ?h = "health_recordResult ?m (threshold \<le> score) (Some (now w1 - now w)) w2"
  let ?s = "session_attempt deps request ?entry ?h"
  obtain result w' where fin: "finalizeResult deps request model response (attemptsLog @ [?entry]) ?s
      = (result, w')"
    by (cases "finalizeResult deps request model response (attemptsLog @ [?entry]) ?s")
  have res: "result = TextResult response ?m (buildMetadata (attemptsLog @ [?entry]) ?m (taskType request))"
    using fin ns by (auto simp: finalizeResult_def Let_def)
  have am: "attemptModel deps request threshold model attemptsLog w =
              (Returned result, attemptsLog @ [?entry], w')"
    using fit gen ev fin by (simp add: attemptModel_def Let_def succeed_def deg ns)
  have hs: "healthStore w' = healthStore ?h"
    using finalizeResult_frame(4)[OF fin] by simp
  have h0: "health_get w2 ?m = health_get w ?m"
    using evaluate_frame(3)[OF ev] call_generate_frame(3)[OF gen]
    by (simp add: health_get_def)
  have rate: "rollingSuccessRate (health_get w' ?m) =
              rollingSuccessRate (health_get w ?m) * 0.8 + (if threshold \<le> score then 0.2 else 0)"
    unfolding health_get_cong[OF hs]
    by (simp add: health_recordResult_def health_get_def[of "_\<lparr>healthStore := _\<rparr>"] Let_def h0
        EMA_ALPHA_def)
  show ?thesis
    unfolding Let_def ev am prod.case res using hs rate by auto
qed

theorem allow_degrade_records_gate_result_witness:
  "(let deps = scenario_deps 8000 (reply ''no'');
        request = scenario_request\<lparr>allowDegrade := True\<rparr>;
        model = scenario_model ''model:a'' 8000;
        (step, attemptsLog', w') = attemptModel deps request 0.9 model [] scenario_world
    in step = Returned (TextResult \<lparr>resp_text = ''no'', toolCalls = None, totalTokens = None\<rparr>
                ''model:a''
                (buildMetadata
                   [\<lparr>attempt_modelId = ''model:a'', outcome = Success, attempt_score = Some 0.15\<rparr>]
                   ''model:a'' Reasoning)) \<and>
       rollingSuccessRate (health_get w' ''model:a'') = 0.8)"
proof -
  let ?deps = "scenario_deps 8000 (reply ''no'')"
  let ?request = "scenario_request\<lparr>allowDegrade := True\<rparr>"
  let ?model = "scenario_model ''model:a'' 8000"
  let ?fitted = "\<lparr>fit_messages = messages ?request, trimmedCount = 0\<rparr>"
  let ?response = "\<lparr>resp_text = ''no'', toolCalls = None, totalTokens = None\<rparr>"
  let ?call = "call_generate ?deps FromRoute ?model (?request\<lparr>messages := fit_messages ?fitted\<rparr>)
                 scenario_world"
  let ?eval = "evaluate ?deps (resp_text ?response) ?request (codeEvaluation (policies ?deps))
                 (case toolCalls ?response of None \<Rightarrow> False | Some n \<Rightarrow> 0 < n) (snd ?call)"
  have deg: "allowDegrade ?request" and ns: "\<not> stream ?request"
    by (simp_all add: scenario_request_def)
  have fit: "fitMessagesToContext (messages ?request) (model_context ?model)
               (nullish (maxTokens ?request) 0) = Some ?fitted"
    by code_simp
  have "fst ?call = Inr ?response"
    by (simp add: call_generate_def scenario_deps_def reply_def)
  then have gen: "?call = (Inr ?response, snd ?call)"
    by (metis prod.collapse)
  have ev: "fst ?eval = 0.15" by code_simp
  have m: "model_id ?model = ''model:a''" "taskType ?request = Reasoning"
    by (simp_all add: scenario_model_def scenario_request_def)
  have h: "rollingSuccessRate (health_get scenario_world ''model:a'') = 1"
    by (simp add: health_get_def scenario_world_def DEFAULT_HEALTH_def)
  note claim = allow_degrade_records_gate_result[OF deg ns fit gen, of "0.9" "[]",
      unfolded Let_def case_prod_beta, unfolded ev m h]
  from claim[THEN conjunct1] claim[THEN conjunct2, THEN conjunct2, THEN conjunct2, THEN conjunct1]
  show ?thesis
    unfolding Let_def case_prod_beta by simp
qed

text \<open>
  C10. \<open>route\<close> takes the policy's \<open>maxWaitMs\<close> when the request's is 0 and the policy's
  \<open>maxAttemptsPerCycle\<close> when the request's \<open>attemptBudget\<close> is 0, and the request's
  own value otherwise; a \<open>qualityThreshold\<close> of 0 is kept, and only an absent threshold
  is replaced by the policy's. These are the values the loop of \<open>route\<close> runs with.
\<close>

theorem falsy_and_nullish_fallbacks:
  "(maxWaitMs request = 0 \<longrightarrow> effective_maxWaitMs request policy = policy_maxWaitMs policy) \<and>
   (maxWaitMs request \<noteq> 0 \<longrightarrow> effective_maxWaitMs request policy = maxWaitMs request) \<and>
   (attemptBudget request = 0 \<longrightarrow>
      effective_attemptBudget request policy = maxAttemptsPerCycle policy) \<and>
   (attemptBudget request \<noteq> 0 \<longrightarrow> effective_attemptBudget request policy = attemptBudget request) \<and>
   (qualityThreshold request = Some 0 \<longrightarrow> effective_threshold request policy = 0) \<and>
   (\<forall>t. qualityThreshold request = Some t \<longrightarrow> effective_threshold request policy = t) \<and>
   (qualityThreshold request = None \<longrightarrow>
      effective_threshold request policy = policy_qualityThreshold policy) \<and>
   (resumeHit deps request w = None \<longrightarrow>
      route fuel request deps w =
        routeLoop fuel deps request (policyForTask (policies deps) (taskType request))
          (effective_maxWaitMs request (policyForTask (policies deps) (taskType request)))
          (effective_attemptBudget request (policyForTask (policies deps) (taskType request)))
          (effective_threshold request (policyForTask (policies deps) (taskType request)))
          (nullish (preferred (policyForTask (policies deps) (taskType request))) [])
          (now w) [] w)"
  by (simp add: effective_maxWaitMs_def effective_attemptBudget_def effective_threshold_def
      falsy_or_def nullish_def route_def Let_def del: routeLoop.simps)

theorem falsy_and_nullish_fallbacks_witness:
  "maxWaitMs scenario_request = 0 \<and> attemptBudget scenario_request = 0 \<and>
   effective_maxWaitMs scenario_request scenario_policy = 1 \<and>
   effective_attemptBudget scenario_request scenario_policy = 1 \<and>
   effective_threshold (scenario_request\<lparr>qualityThreshold := Some 0\<rparr>) scenario_policy = 0 \<and>
   effective_threshold (scenario_request\<lparr>qualityThreshold := None\<rparr>) scenario_policy = 0.9"
proof -
  have z: "maxWaitMs scenario_request = 0" "attemptBudget scenario_request = 0"
    by (simp_all add: scenario_request_def)
  have p: "policy_maxWaitMs scenario_policy = 1" "maxAttemptsPerCycle scenario_policy = 1"
    "policy_qualityThreshold scenario_policy = 0.9"
    by (simp_all add: scenario_policy_def)
  have q: "qualityThreshold (scenario_request\<lparr>qualityThreshold := Some 0\<rparr>) = Some 0"
    "qualityThreshold (scenario_request\<lparr>qualityThreshold := None\<rparr>) = None"
    by simp_all
  note c1 = falsy_and_nullish_fallbacks[of scenario_request scenario_policy]
  have a: "effective_maxWaitMs scenario_request scenario_policy = 1"
    using c1[THEN conjunct1, rule_format, OF z(1)] p(1) by simp
  have b: "effective_attemptBudget scenario_request scenario_policy = 1"
    using c1[THEN conjunct2, THEN conjunct2, THEN conjunct1, rule_format, OF z(2)] p(2) by simp
  have c: "effective_threshold (scenario_request\<lparr>qualityThreshold := Some 0\<rparr>) scenario_policy = 0"
    using falsy_and_nullish_fallbacks[of "scenario_request\<lparr>qualityThreshold := Some 0\<rparr>"
      scenario_policy, THEN conjunct2, THEN conjunct2, THEN conjunct2, THEN conjunct2,
      THEN conjunct1, rule_format, OF q(1)] .
  have d: "effective_threshold (scenario_request\<lparr>qualityThreshold := None\<rparr>) scenario_policy = 0.9"
    using falsy_and_nullish_fallbacks[of "scenario_request\<lparr>qualityThreshold := None\<rparr>"
      scenario_policy, THEN conjunct2, THEN conjunct2, THEN conjunct2, THEN conjunct2,
      THEN conjunct2, THEN conjunct2, THEN conjunct1, rule_format, OF q(2)] p(3) by simp
  from z a b c d show ?thesis by simp
qed

end
